theory Spec2Isabelle
  imports Complex_Main
begin

section \<open>JavaScript values and strings\<close>

text \<open>
  The address-based engine (\<^verbatim>\<open>lib/block-detector-v2.js\<close>) and the geometry-based engine
  (\<^verbatim>\<open>lib/block-detector.js\<close>) are embedded function by function.

  Strings are lists of 8-bit characters. The case conversions act on the ASCII letters and
  the white-space class holds the ASCII white-space characters, so the model follows the
  source on ASCII text. House numbers are integers and their arithmetic is exact. The
  source computes in doubles, which agree with the integers up to \<open>2 ^ 53\<close>: the model
  follows the source where the numbers read and computed stay within that bound, and a
  statement about all house numbers carries the bound as a hypothesis.

  An argument that the source tests with \<^verbatim>\<open>!x\<close> or \<^verbatim>\<open>typeof x\<close> is a \<open>js_arg\<close>:
  \<^verbatim>\<open>undefined\<close>, \<^verbatim>\<open>null\<close> or a string.
\<close>

datatype js_arg = Undefined | Null | Str string

definition is_space :: "char \<Rightarrow> bool" where
  \<comment> \<open>the class \<^verbatim>\<open>\s\<close> (tab, line feed, vertical tab, form feed, carriage return, space)\<close>
  "is_space c = (c \<in> set [CHR 0x09, CHR 0x0A, CHR 0x0B, CHR 0x0C, CHR 0x0D, CHR '' ''])"

definition is_digit :: "char \<Rightarrow> bool" where
  \<comment> \<open>the class \<^verbatim>\<open>\d\<close>\<close>
  "is_digit c = (c \<in> set ''0123456789'')"

definition is_dot :: "char \<Rightarrow> bool" where
  \<comment> \<open>the class \<^verbatim>\<open>.\<close>: anything but a line terminator\<close>
  "is_dot c = (c \<noteq> CHR 0x0A \<and> c \<noteq> CHR 0x0D)"

definition is_name_char :: "char \<Rightarrow> bool" where
  \<comment> \<open>the class \<^verbatim>\<open>[a-z0-9_]\<close>\<close>
  "is_name_char c = (c \<in> set ''abcdefghijklmnopqrstuvwxyz0123456789_'')"

definition lower_char :: "char \<Rightarrow> char" where
  "lower_char c =
     (case map_of (zip ''ABCDEFGHIJKLMNOPQRSTUVWXYZ'' ''abcdefghijklmnopqrstuvwxyz'') c of
        Some d \<Rightarrow> d | None \<Rightarrow> c)"

definition upper_char :: "char \<Rightarrow> char" where
  "upper_char c =
     (case map_of (zip ''abcdefghijklmnopqrstuvwxyz'' ''ABCDEFGHIJKLMNOPQRSTUVWXYZ'') c of
        Some d \<Rightarrow> d | None \<Rightarrow> c)"

definition toLowerCase :: "string \<Rightarrow> string" where
  "toLowerCase s = map lower_char s"

definition toUpperCase :: "string \<Rightarrow> string" where
  "toUpperCase s = map upper_char s"

definition trim :: "string \<Rightarrow> string" where
  "trim s = rev (dropWhile is_space (rev (dropWhile is_space s)))"

function replace_spaces :: "string \<Rightarrow> string" where
  \<comment> \<open>\<^verbatim>\<open>.replace(/\s+/g, '_')\<close>: every maximal run of white space becomes one underscore\<close>
  "replace_spaces [] = []"
| "replace_spaces (c # cs) =
     (if is_space c then CHR ''_'' # replace_spaces (dropWhile is_space cs)
      else c # replace_spaces cs)"
  by pat_completeness auto
termination
  by (relation "measure length") (auto simp: less_Suc_eq_le length_dropWhile_le)

definition remove_special :: "string \<Rightarrow> string" where
  \<comment> \<open>\<^verbatim>\<open>.replace(/[^a-z0-9_]/g, '')\<close>\<close>
  "remove_special s = filter is_name_char s"

definition digit_val :: "char \<Rightarrow> int" where
  "digit_val c = (case map_of (zip ''0123456789'' [0, 1, 2, 3, 4, 5, 6, 7, 8, 9]) c of
                    Some d \<Rightarrow> d | None \<Rightarrow> 0)"

definition parseInt :: "string \<Rightarrow> int" where
  \<comment> \<open>\<^verbatim>\<open>parseInt\<close> on a run of decimal digits, the only argument the source gives it\<close>
  "parseInt s = foldl (\<lambda>acc c. 10 * acc + digit_val c) 0 s"

fun digits_of :: "nat \<Rightarrow> nat \<Rightarrow> string" where
  \<comment> \<open>the decimal digits of a number below \<open>10 ^ k\<close>, most significant first\<close>
  "digits_of 0 n = []"
| "digits_of (Suc k) n =
     (if n < 10 then [''0123456789'' ! n]
      else digits_of k (n div 10) @ [''0123456789'' ! (n mod 10)])"

definition show_nat :: "nat \<Rightarrow> string" where
  "show_nat n = digits_of (Suc n) n"

definition show_int :: "int \<Rightarrow> string" where
  \<comment> \<open>an integer in a template literal\<close>
  "show_int i = (if i < 0 then CHR ''-'' # show_nat (nat (- i)) else show_nat (nat i))"

section \<open>Regular expressions\<close>

text \<open>
  The two patterns of \<^verbatim>\<open>parseAddress\<close> are matched the way a backtracking matcher does:
  \<open>ms r st\<close> lists, in the order in which the matcher tries them, the states in which a
  match of \<open>r\<close> begun in state \<open>st\<close> can end. A state is the number of characters consumed,
  the remaining text and the captures made so far. An iteration of a repetition that
  consumes nothing is not taken.
\<close>

datatype re =
    Atom "char \<Rightarrow> bool"
  | Bol
  | Eol
  | Eps
  | Seq re re
  | Alt re re
  | Rep bool re
  | Group nat re

type_synonym mstate = "nat \<times> string \<times> (nat \<rightharpoonup> string)"

function ms :: "re \<Rightarrow> mstate \<Rightarrow> mstate list" where
  "ms (Atom P) st =
     (case fst (snd st) of [] \<Rightarrow> []
      | x # xs \<Rightarrow> if P x then [(Suc (fst st), xs, snd (snd st))] else [])"
| "ms Bol st = (if fst st = 0 then [st] else [])"
| "ms Eol st = (if fst (snd st) = [] then [st] else [])"
| "ms Eps st = [st]"
| "ms (Seq r1 r2) st = concat (map (ms r2) (ms r1 st))"
| "ms (Alt r1 r2) st = ms r1 st @ ms r2 st"
| "ms (Rep greedy r) st =
     (let more = concat (map (\<lambda>st'. if length (fst (snd st')) < length (fst (snd st))
                                      then ms (Rep greedy r) st' else [])
                             (ms r st))
      in if greedy then more @ [st] else st # more)"
| "ms (Group k r) st =
     map (\<lambda>st'. (fst st', fst (snd st'),
                  (snd (snd st'))(k \<mapsto> take (fst st' - fst st) (fst (snd st)))))
         (ms r st)"
  by pat_completeness auto
termination
  by (relation "measures [\<lambda>(r, st). size r, \<lambda>(r, st). length (fst (snd st))]") auto

definition re_exec :: "re \<Rightarrow> nat \<Rightarrow> string \<Rightarrow> string option list option" where
  \<comment> \<open>\<^verbatim>\<open>s.match(r)\<close> for a pattern with \<open>k\<close> groups: every start index in turn, the first
      match found, its captures 1 to \<open>k\<close>\<close>
  "re_exec r k s =
     (case concat (map (\<lambda>i. ms r (i, drop i s, Map.empty)) [0..<Suc (length s)]) of
        [] \<Rightarrow> None
      | st # _ \<Rightarrow> Some (map (snd (snd st)) [1..<Suc k]))"

fun seqs :: "re list \<Rightarrow> re" where
  "seqs [] = Eps"
| "seqs [r] = r"
| "seqs (r # rs) = Seq r (seqs rs)"

fun alts :: "re list \<Rightarrow> re" where
  "alts [] = Atom (\<lambda>_. False)"
| "alts [r] = r"
| "alts (r # rs) = Alt r (alts rs)"

definition plus :: "re \<Rightarrow> re" where
  "plus r = Seq r (Rep True r)"

definition plus_lazy :: "re \<Rightarrow> re" where
  "plus_lazy r = Seq r (Rep False r)"

definition opt :: "re \<Rightarrow> re" where
  "opt r = Alt r Eps"

definition lit_i :: "string \<Rightarrow> re" where
  \<comment> \<open>a literal under the flag \<^verbatim>\<open>i\<close>\<close>
  "lit_i s = seqs (map (\<lambda>c. Atom (\<lambda>x. upper_char x = upper_char c)) s)"

section \<open>The address parser\<close>

definition normalizeStreetName :: "js_arg \<Rightarrow> string" where
  "normalizeStreetName name =
     (case name of
        Str s \<Rightarrow> if s = [] then []
                 else remove_special (replace_spaces (trim (toLowerCase s)))
      | _ \<Rightarrow> [])"

record parsed_address =
  houseNumber :: int
  directional :: "string option"
  streetName :: string
  streetType :: "string option"
  fullStreet :: string

text \<open>
  The primary pattern, under the flag \<^verbatim>\<open>i\<close>: a number, an optional second number after
  a hyphen, white space, an optional directional and white space, the street words (as few
  characters as will do), white space, a street-type token, an optional full stop, the
  end of the text.
\<close>

definition addressRegex :: re where
  "addressRegex = seqs
     [Bol,
      Group 1 (plus (Atom is_digit)),
      opt (Seq (lit_i ''-'') (plus (Atom is_digit))),
      plus (Atom is_space),
      opt (Seq (Group 2 (alts (map lit_i
             [''N'', ''S'', ''E'', ''W'', ''NORTH'', ''SOUTH'', ''EAST'', ''WEST''])))
               (plus (Atom is_space))),
      Group 3 (plus_lazy (Atom is_dot)),
      plus (Atom is_space),
      Group 4 (alts (map lit_i
        [''ST'', ''STREET'', ''AVE'', ''AVENUE'', ''RD'', ''ROAD'', ''BLVD'', ''BOULEVARD'',
         ''DR'', ''DRIVE'', ''LN'', ''LANE'', ''CT'', ''COURT'', ''PL'', ''PLACE'', ''WAY'',
         ''PKWY'', ''PARKWAY'', ''HWY'', ''HIGHWAY'', ''CIR'', ''CIRCLE'', ''TER'',
         ''TERRACE''])),
      opt (lit_i ''.''),
      Eol]"

text \<open>The fallback pattern: a number, white space, and the rest of the text.\<close>

definition numberedStreetRegex :: re where
  "numberedStreetRegex = seqs
     [Bol, Group 1 (plus (Atom is_digit)), plus (Atom is_space),
      Group 2 (plus (Atom is_dot)), Eol]"

text \<open>
  A match of the primary pattern always sets the groups 1, 3 and 4, and a match of the
  fallback pattern both of its groups; the remaining \<open>case\<close> branches are there for
  totality and are never taken.
\<close>

definition parseAddress :: "js_arg \<Rightarrow> parsed_address option" where
  "parseAddress address =
     (case address of
        Str a \<Rightarrow>
          if a = [] then None
          else
            (let cleaned = toUpperCase (trim a) in
             case re_exec addressRegex 4 cleaned of
               None \<Rightarrow>
                 (case re_exec numberedStreetRegex 2 cleaned of
                    Some [Some number, Some rest] \<Rightarrow>
                      Some \<lparr>houseNumber = parseInt number,
                            directional = None,
                            streetName = normalizeStreetName (Str rest),
                            streetType = None,
                            fullStreet = rest\<rparr>
                  | _ \<Rightarrow> None)
             | Some [Some number, dir, Some name, Some type] \<Rightarrow>
                 Some \<lparr>houseNumber = parseInt number,
                       directional = (case dir of None \<Rightarrow> None | Some d \<Rightarrow> Some (take 1 d)),
                       streetName = normalizeStreetName
                         (Str ((case dir of None \<Rightarrow> [] | Some d \<Rightarrow> d) @ '' '' @ name)),
                       streetType = Some type,
                       fullStreet = (case dir of None \<Rightarrow> [] | Some d \<Rightarrow> d @ '' '')
                                      @ name @ '' '' @ type\<rparr>
             | Some _ \<Rightarrow> None)
      | _ \<Rightarrow> None)"

section \<open>Numbers\<close>

text \<open>
  The statistics start from \<^verbatim>\<open>Infinity\<close> and \<^verbatim>\<open>-Infinity\<close>, and a block size of zero
  makes the range arithmetic leave the integers, so a number is an integer, an infinity or
  \<^verbatim>\<open>NaN\<close>.
\<close>

datatype jsnum = NaN | NegInf | Fin int | PosInf

definition js_div_floor :: "int \<Rightarrow> int \<Rightarrow> jsnum" where
  \<comment> \<open>\<^verbatim>\<open>Math.floor(a / b)\<close> on integers\<close>
  "js_div_floor a b =
     (if b = 0 then (if a = 0 then NaN else if 0 < a then PosInf else NegInf)
      else Fin (a div b))"

definition js_times :: "jsnum \<Rightarrow> int \<Rightarrow> jsnum" where
  "js_times x b =
     (case x of
        NaN \<Rightarrow> NaN
      | Fin a \<Rightarrow> Fin (a * b)
      | PosInf \<Rightarrow> (if b = 0 then NaN else if 0 < b then PosInf else NegInf)
      | NegInf \<Rightarrow> (if b = 0 then NaN else if 0 < b then NegInf else PosInf))"

definition js_plus :: "jsnum \<Rightarrow> int \<Rightarrow> jsnum" where
  "js_plus x b = (case x of Fin a \<Rightarrow> Fin (a + b) | _ \<Rightarrow> x)"

definition js_minus :: "jsnum \<Rightarrow> jsnum \<Rightarrow> jsnum" where
  "js_minus x y =
     (case (x, y) of
        (NaN, _) \<Rightarrow> NaN
      | (_, NaN) \<Rightarrow> NaN
      | (Fin a, Fin b) \<Rightarrow> Fin (a - b)
      | (Fin a, PosInf) \<Rightarrow> NegInf
      | (Fin a, NegInf) \<Rightarrow> PosInf
      | (PosInf, PosInf) \<Rightarrow> NaN
      | (PosInf, _) \<Rightarrow> PosInf
      | (NegInf, NegInf) \<Rightarrow> NaN
      | (NegInf, _) \<Rightarrow> NegInf)"

definition js_min :: "jsnum \<Rightarrow> int \<Rightarrow> jsnum" where
  \<comment> \<open>\<^verbatim>\<open>Math.min(x, h)\<close>\<close>
  "js_min x h =
     (case x of NaN \<Rightarrow> NaN | NegInf \<Rightarrow> NegInf | Fin a \<Rightarrow> Fin (min a h) | PosInf \<Rightarrow> Fin h)"

definition js_max :: "jsnum \<Rightarrow> int \<Rightarrow> jsnum" where
  \<comment> \<open>\<^verbatim>\<open>Math.max(x, h)\<close>\<close>
  "js_max x h =
     (case x of NaN \<Rightarrow> NaN | PosInf \<Rightarrow> PosInf | Fin a \<Rightarrow> Fin (max a h) | NegInf \<Rightarrow> Fin h)"

definition show_num :: "jsnum \<Rightarrow> string" where
  \<comment> \<open>a number in a template literal\<close>
  "show_num x =
     (case x of NaN \<Rightarrow> ''NaN'' | PosInf \<Rightarrow> ''Infinity'' | NegInf \<Rightarrow> ''-Infinity''
      | Fin a \<Rightarrow> show_int a)"

section \<open>The fixed-size assigner\<close>

text \<open>
  The range arithmetic is that of the integers, and a number is printed in decimal. This is
  what the source computes as long as \<open>number + blockSize\<close> does not exceed \<open>2 ^ 53\<close>;
  beyond it the doubles of the source round, and from \<open>10 ^ 21\<close> they print with an
  exponent.
\<close>

definition block_range_id :: "string \<Rightarrow> int \<Rightarrow> int \<Rightarrow> string" where
  \<comment> \<open>the three lines that \<^verbatim>\<open>generateBlockIdFromAddress\<close> and the natural-boundary branch
      of \<^verbatim>\<open>assignBlockIds\<close> share: \<^verbatim>\<open>blockStart\<close>, \<^verbatim>\<open>blockEnd\<close> and the template\<close>
  "block_range_id street number blockSize =
     (let blockStart = js_times (js_div_floor number blockSize) blockSize;
          blockEnd = js_plus (js_plus blockStart blockSize) (- 1)
      in street @ ''_'' @ show_num blockStart @ ''_'' @ show_num blockEnd)"

definition generateBlockIdFromAddress :: "parsed_address option \<Rightarrow> int option \<Rightarrow> string option"
  where
  "generateBlockIdFromAddress parsedAddress blockSize_arg =
     (let blockSize = (case blockSize_arg of None \<Rightarrow> 100 | Some b \<Rightarrow> b) in
      case parsedAddress of
        None \<Rightarrow> None
      | Some p \<Rightarrow>
          if houseNumber p = 0 then None
          else Some (block_range_id (streetName p) (houseNumber p) blockSize))"

section \<open>The natural-boundary detector\<close>

text \<open>
  A parcel as the callers and the test data build it: an id and an address, which may be
  \<^verbatim>\<open>null\<close>. It carries no \<^verbatim>\<open>block_id\<close> or \<^verbatim>\<open>parse_error\<close> of its own.
\<close>

record parcel =
  parcel_id :: string
  address :: js_arg

text \<open>A parcel with its parsed address: the object \<^verbatim>\<open>{...parcel, parsed}\<close>.\<close>

type_synonym parsed_parcel = "parcel \<times> parsed_address"

record boundary =
  b_start :: int
  b_end :: int
  addresses :: "parsed_parcel list"

definition number_of :: "parsed_parcel \<Rightarrow> int" where
  "number_of a = houseNumber (snd a)"

definition sorted_addresses :: "parcel list \<Rightarrow> parsed_parcel list" where
  \<comment> \<open>the \<^verbatim>\<open>map\<close>, \<^verbatim>\<open>filter\<close> and (stable) \<^verbatim>\<open>sort\<close> at the head of
      \<^verbatim>\<open>detectBlockBoundaries\<close>\<close>
  "sorted_addresses addrs =
     sort_key number_of
       (filter (\<lambda>a. number_of a \<noteq> 0)
          (concat (map (\<lambda>addr. case parseAddress (address addr) of
                                   None \<Rightarrow> [] | Some p \<Rightarrow> [(addr, p)]) addrs)))"

fun boundary_loop :: "int \<Rightarrow> boundary \<Rightarrow> int \<Rightarrow> parsed_parcel list \<Rightarrow> boundary list" where
  \<comment> \<open>the \<^verbatim>\<open>for\<close> loop: the current block, the previous house number, the rest of the
      sorted list; the result is \<^verbatim>\<open>boundaries\<close> after the last push\<close>
  "boundary_loop gapThreshold currentBlock prevNumber [] = [currentBlock]"
| "boundary_loop gapThreshold currentBlock prevNumber (a # rest) =
     (let currNumber = number_of a; gap = currNumber - prevNumber in
      if gap > gapThreshold
      then currentBlock\<lparr>b_end := prevNumber\<rparr>
             # boundary_loop gapThreshold
                 \<lparr>b_start = currNumber, b_end = currNumber, addresses = [a]\<rparr> currNumber rest
      else boundary_loop gapThreshold
             (currentBlock\<lparr>b_end := currNumber, addresses := addresses currentBlock @ [a]\<rparr>)
             currNumber rest)"

definition detectBlockBoundaries :: "parcel list \<Rightarrow> int option \<Rightarrow> boundary list" where
  "detectBlockBoundaries addrs gapThreshold_arg =
     (let gapThreshold = (case gapThreshold_arg of None \<Rightarrow> 50 | Some g \<Rightarrow> g) in
      if addrs = [] then []
      else case sorted_addresses addrs of
             [] \<Rightarrow> []
           | first # rest \<Rightarrow>
               boundary_loop gapThreshold
                 \<lparr>b_start = number_of first, b_end = number_of first, addresses = [first]\<rparr>
                 (number_of first) rest)"

fun boundary_starts :: "nat \<Rightarrow> boundary list \<Rightarrow> nat list" where
  \<comment> \<open>the positions, in the sorted sequence, at which the groups begin\<close>
  "boundary_starts k [] = []"
| "boundary_starts k (b # bs) = k # boundary_starts (k + length (addresses b)) bs"

section \<open>Batch assignment\<close>

text \<open>
  A \<^verbatim>\<open>Map\<close> keeps its keys in insertion order: it is an association list in which
  \<open>map_set\<close> overwrites in place or appends, and \<open>map_modify\<close> is the mutation of the
  object stored under a key (\<^verbatim>\<open>m.get(k).push(x)\<close>, \<^verbatim>\<open>m.get(k).count++\<close>).
\<close>

definition map_has :: "('k \<times> 'v) list \<Rightarrow> 'k \<Rightarrow> bool" where
  "map_has m k = (map_of m k \<noteq> None)"

fun map_set :: "('k \<times> 'v) list \<Rightarrow> 'k \<Rightarrow> 'v \<Rightarrow> ('k \<times> 'v) list" where
  "map_set [] k v = [(k, v)]"
| "map_set (e # m) k v = (if fst e = k then (k, v) # m else e # map_set m k v)"

definition map_modify :: "('k \<times> 'v) list \<Rightarrow> 'k \<Rightarrow> ('v \<Rightarrow> 'v) \<Rightarrow> ('k \<times> 'v) list" where
  "map_modify m k f = map (\<lambda>e. if fst e = k then (fst e, f (snd e)) else e) m"

record options =
  opt_blockSize :: "int option"
  opt_useNaturalBoundaries :: "bool option"
  opt_gapThreshold :: "int option"

text \<open>
  An entry of \<^verbatim>\<open>results\<close>: the parcel, and the fields the function adds to it. A field that
  is absent is \<open>None\<close> (\<open>False\<close> for the flag); \<^verbatim>\<open>block_id: null\<close> is \<open>None\<close> too.
\<close>

record result_row =
  parcel :: parcel
  parsed :: "parsed_address option"
  block_id :: "string option"
  parse_error :: bool
  block_method :: "string option"

record block_stats =
  count :: nat
  minNumber :: jsnum
  maxNumber :: jsnum
  stats_streetName :: string

record summary =
  totalParcels :: nat
  successfullyAssigned :: nat
  parseErrors :: nat
  uniqueBlocks :: nat
  uniqueStreets :: nat

record assignment =
  parcels :: "result_row list"
  blockStats :: "(string \<times> block_stats) list"
  summary :: summary

type_synonym street_groups = "(string \<times> parsed_parcel list) list"

type_synonym stats_map = "(string option \<times> block_stats) list"

definition error_row :: "parcel \<Rightarrow> result_row" where
  "error_row p =
     \<lparr>parcel = p, parsed = None, block_id = None, parse_error = True, block_method = None\<rparr>"

definition group_parcel ::
  "result_row list \<times> street_groups \<Rightarrow> parcel \<Rightarrow> result_row list \<times> street_groups" where
  \<comment> \<open>one turn of the first loop\<close>
  "group_parcel st p =
     (case parseAddress (address p) of
        None \<Rightarrow> (fst st @ [error_row p], snd st)
      | Some pa \<Rightarrow>
          (let streetKey = streetName pa;
               streetGroups = (if map_has (snd st) streetKey then snd st
                               else map_set (snd st) streetKey [])
           in (fst st, map_modify streetGroups streetKey (\<lambda>l. l @ [(p, pa)]))))"

definition record_assignment ::
  "string option \<Rightarrow> string \<Rightarrow> result_row list \<times> stats_map \<Rightarrow> parsed_parcel
     \<Rightarrow> result_row list \<times> stats_map" where
  \<comment> \<open>the body both branches share: push the row, then update the statistics\<close>
  "record_assignment blockId method st a =
     (let stats0 = (if map_has (snd st) blockId then snd st
                    else map_set (snd st) blockId
                           \<lparr>count = 0, minNumber = PosInf, maxNumber = NegInf,
                            stats_streetName = fullStreet (snd a)\<rparr>)
      in (fst st @ [\<lparr>parcel = fst a, parsed = Some (snd a), block_id = blockId,
                     parse_error = False, block_method = Some method\<rparr>],
          map_modify stats0 blockId
            (\<lambda>s. s\<lparr>count := count s + 1,
                    minNumber := js_min (minNumber s) (number_of a),
                    maxNumber := js_max (maxNumber s) (number_of a)\<rparr>)))"

definition process_street ::
  "int \<Rightarrow> bool \<Rightarrow> int \<Rightarrow> result_row list \<times> stats_map \<Rightarrow> string \<times> parsed_parcel list
     \<Rightarrow> result_row list \<times> stats_map" where
  \<comment> \<open>one turn of the second loop. \<^verbatim>\<open>detectBlockBoundaries\<close> parses every address again and
      overwrites \<^verbatim>\<open>parsed\<close>, so it is given the parcels\<close>
  "process_street blkSize natural gap st g =
     (if natural then
        foldl (\<lambda>st1 bnd.
                 foldl (record_assignment (Some (block_range_id (fst g) (b_start bnd) blkSize))
                          ''natural_boundary'')
                       st1 (addresses bnd))
              st (detectBlockBoundaries (map fst (snd g)) (Some gap))
      else
        foldl (\<lambda>st1 a.
                 record_assignment (generateBlockIdFromAddress (Some (snd a)) (Some blkSize))
                   ''fixed_size'' st1 a)
              st (snd g))"

definition process_parcels ::
  "parcel list \<Rightarrow> options \<Rightarrow> result_row list \<times> stats_map \<times> street_groups" where
  \<comment> \<open>the two loops: \<^verbatim>\<open>results\<close>, the Map \<^verbatim>\<open>blockStats\<close> and the Map \<^verbatim>\<open>streetGroups\<close>
      when they end\<close>
  "process_parcels ps opts =
     (let blkSize = (case opt_blockSize opts of None \<Rightarrow> 100 | Some b \<Rightarrow> b);
          natural = (case opt_useNaturalBoundaries opts of None \<Rightarrow> False | Some u \<Rightarrow> u);
          gap = (case opt_gapThreshold opts of None \<Rightarrow> 50 | Some g \<Rightarrow> g);
          grouped = foldl group_parcel ([], []) ps;
          done = foldl (process_street blkSize natural gap) (fst grouped, []) (snd grouped)
      in (fst done, snd done, snd grouped))"

definition key_string :: "string option \<Rightarrow> string" where
  \<comment> \<open>a Map key as a property name\<close>
  "key_string k = (case k of None \<Rightarrow> ''null'' | Some s \<Rightarrow> s)"

definition object_fromEntries :: "('k \<times> 'v) list \<Rightarrow> ('k \<Rightarrow> string) \<Rightarrow> (string \<times> 'v) list" where
  \<comment> \<open>\<^verbatim>\<open>Object.fromEntries\<close>; no key of \<^verbatim>\<open>blockStats\<close> is an array index, so the
      properties stay in insertion order\<close>
  "object_fromEntries m name = foldl (\<lambda>obj e. map_set obj (name (fst e)) (snd e)) [] m"

definition truthy :: "string option \<Rightarrow> bool" where
  "truthy v = (case v of None \<Rightarrow> False | Some s \<Rightarrow> s \<noteq> [])"

definition assignBlockIds :: "parcel list \<Rightarrow> options \<Rightarrow> assignment" where
  "assignBlockIds ps opts =
     (case process_parcels ps opts of
        (results, stats, streetGroups) \<Rightarrow>
          \<lparr>parcels = results,
           blockStats = object_fromEntries stats key_string,
           summary =
             \<lparr>totalParcels = length ps,
              successfullyAssigned = length (filter (\<lambda>r. truthy (block_id r)) results),
              parseErrors = length (filter parse_error results),
              uniqueBlocks = length stats,
              uniqueStreets = length streetGroups\<rparr>\<rparr>)"

section \<open>The assignment validator\<close>

record issue =
  issue_type :: string
  issue_blockId :: string
  message :: string
  severity :: string

record validation =
  valid :: bool
  issues :: "issue list"

definition expected_count :: "jsnum \<Rightarrow> jsnum" where
  \<comment> \<open>\<^verbatim>\<open>Math.floor(numberRange / 2) + 1\<close>\<close>
  "expected_count numberRange = (case numberRange of Fin r \<Rightarrow> Fin (r div 2 + 1) | x \<Rightarrow> x)"

definition below_30_percent :: "nat \<Rightarrow> jsnum \<Rightarrow> bool" where
  \<comment> \<open>\<^verbatim>\<open>count < expectedCount * 0.3\<close>, the product taken exactly\<close>
  "below_30_percent c expectedCount =
     (case expectedCount of
        Fin e \<Rightarrow> (of_nat c :: rat) < of_int e * (3 / 10)
      | PosInf \<Rightarrow> True
      | _ \<Rightarrow> False)"

definition block_issues :: "string \<times> block_stats \<Rightarrow> issue list" where
  \<comment> \<open>one turn of the loop over \<^verbatim>\<open>Object.entries(blockStats)\<close>\<close>
  "block_issues e =
     (let blockId = fst e; stats = snd e;
          numberRange = js_minus (maxNumber stats) (minNumber stats);
          expectedCount = expected_count numberRange
      in (if below_30_percent (count stats) expectedCount
          then [\<lparr>issue_type = ''sparse_block'', issue_blockId = blockId,
                  message = ''Block '' @ blockId @ '' has only '' @ show_nat (count stats)
                    @ '' parcels but spans '' @ show_num numberRange @ '' numbers'',
                  severity = ''warning''\<rparr>]
          else [])
         @ (if count stats < 3
            then [\<lparr>issue_type = ''small_block'', issue_blockId = blockId,
                    message = ''Block '' @ blockId @ '' has only '' @ show_nat (count stats)
                      @ '' parcels'',
                    severity = ''info''\<rparr>]
            else []))"

definition validateBlockAssignments :: "assignment \<Rightarrow> validation" where
  "validateBlockAssignments assignments =
     (let found = concat (map block_issues (blockStats assignments))
      in \<lparr>valid = (length (filter (\<lambda>i. severity i = ''error'') found) = 0), issues = found\<rparr>)"

section \<open>Geometric segmentation\<close>

text \<open>
  The geometry library is a parameter: a record of the functions the detector calls. A
  call that the source wraps in \<^verbatim>\<open>try\<close> returns \<open>None\<close> when it throws. A position is a
  coordinate pair, a line the coordinate list of a LineString, a polygon a list of rings;
  \<^verbatim>\<open>distance\<close> is in kilometres, as the library returns it.
\<close>

type_synonym position = "rat \<times> rat"

type_synonym line = "position list"

type_synonym polygon = "position list list"

type_synonym bbox = "rat \<times> rat \<times> rat \<times> rat"

record street =
  street_name :: js_arg
  geometry :: line


text \<open>
  A block as \<^verbatim>\<open>createBlockSegments\<close> builds it: a plain object with these fields. It is
  not a GeoJSON object: it has no \<^verbatim>\<open>type\<close>.
\<close>

record segment =
  blockId :: string
  seg_streetName :: js_arg
  fromCrossStreet :: js_arg
  toCrossStreet :: js_arg
  seg_geometry :: line
  bounds :: bbox
  center :: "position option"

text \<open>
  What \<^verbatim>\<open>turf.buffer\<close> is given in this repository: a GeoJSON feature made of a line
  (\<^verbatim>\<open>turf.feature(block.geometry)\<close>, in the processing script), or a block object itself
  (in \<^verbatim>\<open>createBlockPolygon\<close>).
\<close>

datatype buffer_input = GeoFeature line | PlainObject segment

record 'p turf =
  lineSlice :: "position \<Rightarrow> position \<Rightarrow> line \<Rightarrow> line option"
  bbox_of :: "line \<Rightarrow> bbox option"
  center_of :: "line \<Rightarrow> position option"
  distance :: "position \<Rightarrow> position \<Rightarrow> rat"
  buffer :: "buffer_input \<Rightarrow> rat \<Rightarrow> polygon option"
  centroid :: "'p \<Rightarrow> position option"
  booleanPointInPolygon :: "position \<Rightarrow> polygon \<Rightarrow> bool option"






section \<open>Parcels in blocks\<close>

definition createBlockPolygon :: "'p turf \<Rightarrow> segment \<Rightarrow> rat option \<Rightarrow> polygon option" where
  \<comment> \<open>\<^verbatim>\<open>turf.buffer(segment, bufferDistance, ...)\<close>: the block object itself is buffered;
      \<open>None\<close> is the \<^verbatim>\<open>null\<close> of the \<^verbatim>\<open>catch\<close>\<close>
  "createBlockPolygon T seg bufferDistance_arg =
     (let bufferDistance = (case bufferDistance_arg of None \<Rightarrow> 50 | Some d \<Rightarrow> d)
      in buffer T (PlainObject seg) bufferDistance)"

definition block_polygons :: "'p turf \<Rightarrow> segment list \<Rightarrow> (segment \<times> polygon) list" where
  \<comment> \<open>\<^verbatim>\<open>blockPolygons\<close>: the blocks that have a polygon, in input order\<close>
  "block_polygons T blocks =
     concat (map (\<lambda>b. case createBlockPolygon T b None of None \<Rightarrow> [] | Some poly \<Rightarrow> [(b, poly)])
                 blocks)"

fun find_block :: "'p turf \<Rightarrow> position \<Rightarrow> (segment \<times> polygon) list \<Rightarrow> string option option"
  where
  \<comment> \<open>the inner loop: \<open>None\<close> when the test throws, \<open>Some None\<close> when no polygon contains the
      point, \<open>Some (Some k)\<close> at the \<^verbatim>\<open>break\<close>\<close>
  "find_block T pt [] = Some None"
| "find_block T pt (b # rest) =
     (case booleanPointInPolygon T pt (snd b) of
        None \<Rightarrow> None
      | Some True \<Rightarrow> Some (Some (blockId (fst b)))
      | Some False \<Rightarrow> find_block T pt rest)"

definition parcel_target :: "'p turf \<Rightarrow> (segment \<times> polygon) list \<Rightarrow> 'p \<Rightarrow> string option option"
  where
  \<comment> \<open>the body of the \<^verbatim>\<open>try\<close> for one parcel\<close>
  "parcel_target T bps p =
     (case centroid T p of None \<Rightarrow> None | Some pt \<Rightarrow> find_block T pt bps)"

definition assign_parcel ::
  "'p turf \<Rightarrow> (segment \<times> polygon) list \<Rightarrow> (string \<times> 'p list) list \<times> 'p list \<Rightarrow> 'p
     \<Rightarrow> (string \<times> 'p list) list \<times> 'p list" where
  \<comment> \<open>one turn of the loop over the parcels; the second component collects the parcels for
      which the \<^verbatim>\<open>catch\<close> logs a warning\<close>
  "assign_parcel T bps st p =
     (case parcel_target T bps p of
        None \<Rightarrow> (fst st, snd st @ [p])
      | Some None \<Rightarrow> st
      | Some (Some k) \<Rightarrow> (map_modify (fst st) k (\<lambda>l. l @ [p]), snd st))"

definition assignParcelsToBlocks ::
  "'p turf \<Rightarrow> 'p list \<Rightarrow> segment list \<Rightarrow> (string \<times> 'p list) list \<times> 'p list" where
  \<comment> \<open>the Map \<^verbatim>\<open>blockParcels\<close> that is returned, and the parcels warned about\<close>
  "assignParcelsToBlocks T ps blocks =
     (let blockParcels = foldl (\<lambda>m b. map_set m (blockId b) []) [] blocks
      in foldl (assign_parcel T (block_polygons T blocks)) (blockParcels, []) ps)"

section \<open>Notions used in the statements\<close>

definition parsable :: "parcel \<Rightarrow> bool" where
  \<comment> \<open>\<^verbatim>\<open>parseAddress(parcel.address)\<close> is not \<^verbatim>\<open>null\<close>\<close>
  "parsable p = (parseAddress (address p) \<noteq> None)"

definition appends :: "(result_row list \<times> 's \<Rightarrow> result_row list \<times> 's) \<Rightarrow> bool" where
  \<comment> \<open>a step of the second loop only pushes rows without the error flag, and what it does
      to the statistics does not depend on the rows pushed before\<close>
  "appends F =
     (\<exists>G H. \<forall>rs bs. F (rs, bs) = (rs @ G bs, H bs) \<and> (\<forall>r\<in>set (G bs). \<not> parse_error r))"

definition woodward_example :: "parcel list" where
  \<comment> \<open>the Woodward parcels of \<^verbatim>\<open>tests/block-detection.test.js\<close>\<close>
  "woodward_example =
     map (\<lambda>(i, a). \<lparr>parcel_id = i, address = Str a\<rparr>)
       [(''001'', ''1201 Woodward Ave''), (''002'', ''1205 Woodward Ave''),
        (''003'', ''1209 Woodward Ave''), (''004'', ''1215 Woodward Ave''),
        (''005'', ''1225 Woodward Ave''), (''006'', ''1235 Woodward Ave''),
        (''007'', ''1245 Woodward Ave''), (''008'', ''1255 Woodward Ave''),
        (''009'', ''1301 Woodward Ave''), (''010'', ''1305 Woodward Ave''),
        (''011'', ''1315 Woodward Ave'')]"

definition finite_stats :: "block_stats \<Rightarrow> bool" where
  \<comment> \<open>both bounds are house numbers\<close>
  "finite_stats s = (\<exists>lo hi. minNumber s = Fin lo \<and> maxNumber s = Fin hi)"


definition buffer_needs_geojson :: "'p turf \<Rightarrow> bool" where
  \<comment> \<open>the library's \<^verbatim>\<open>buffer\<close> throws on an object that has no GeoJSON \<^verbatim>\<open>type\<close>\<close>
  "buffer_needs_geojson T = (\<forall>seg d. buffer T (PlainObject seg) d = None)"



text \<open>
  A small geometry to run the detector on: a slice is the straight line between its end
  points, a distance is the sum of the coordinate differences, the corridor of a line
  feature is the line itself, an object without a GeoJSON type cannot be buffered, and a
  parcel is its own centroid.
\<close>

definition example_turf :: "position turf" where
  "example_turf =
     \<lparr>lineSlice = (\<lambda>a b l. if l = [] then None else Some [a, b]),
      bbox_of = (\<lambda>l. case l of
                       [] \<Rightarrow> None
                     | p # ps \<Rightarrow>
                         Some (foldl min (fst p) (map fst ps), foldl min (snd p) (map snd ps),
                               foldl max (fst p) (map fst ps), foldl max (snd p) (map snd ps))),
      center_of = (\<lambda>l. case l of [] \<Rightarrow> None | p # ps \<Rightarrow> Some p),
      distance = (\<lambda>a b. \<bar>fst a - fst b\<bar> + \<bar>snd a - snd b\<bar>),
      buffer = (\<lambda>x d. case x of
                         GeoFeature l \<Rightarrow> if l = [] then None else Some [l]
                       | PlainObject seg \<Rightarrow> None),
      centroid = (\<lambda>p. Some p),
      booleanPointInPolygon = (\<lambda>pt poly. Some (pt \<in> set (concat poly)))\<rparr>"



definition example_blocks :: "segment list" where
  "example_blocks =
     [\<lparr>blockId = ''main_st_start_1st_ave'', seg_streetName = Str ''Main St'',
       fromCrossStreet = Str ''start'', toCrossStreet = Str ''1st Ave'',
       seg_geometry = [(0, 0), (1, 0)], bounds = (0, 0, 1, 0), center = Some (0, 0)\<rparr>,
      \<lparr>blockId = ''main_st_1st_ave_end'', seg_streetName = Str ''Main St'',
       fromCrossStreet = Str ''1st Ave'', toCrossStreet = Str ''end'',
       seg_geometry = [(1, 0), (2, 0)], bounds = (1, 0, 2, 0), center = Some (1, 0)\<rparr>]"

section \<open>Properties of the fixed-size assigner\<close>

lemma block_range_id_nonzero:
  "blockSize \<noteq> 0 \<Longrightarrow>
   block_range_id street number blockSize =
     street @ ''_'' @ show_int (number div blockSize * blockSize) @ ''_''
       @ show_int (number div blockSize * blockSize + blockSize - 1)"
  by (simp add: block_range_id_def js_div_floor_def js_times_def js_plus_def show_num_def Let_def)

lemma show_int_1200: "show_int 1200 = ''1200''"
  by code_simp

lemma show_int_1299: "show_int 1299 = ''1299''"
  by code_simp

text \<open>
  C1 (amended). For every parsed address with a house number \<open>h > 0\<close> and every positive
  block size such that \<open>h + blockSize\<close> is at most \<open>2 ^ 53\<close> (the range in which the
  doubles of the source are the integers), the fixed-size assigner returns \<^verbatim>\<open>{streetName}_{start}_{end}\<close> with
  \<open>start = floor (h / blockSize) * blockSize\<close> and \<open>end = start + blockSize - 1\<close>, so it does
  not return \<^verbatim>\<open>null\<close> there; an omitted block size is 100; the house numbers 1200 and 1299
  both get the range 1200 to 1299. For the house number 0 it returns \<^verbatim>\<open>null\<close>.
\<close>

theorem generateBlockIdFromAddress_fixed_size:
  "(0 < houseNumber p \<and> 0 < blockSize \<and> houseNumber p + blockSize \<le> 2 ^ 53 \<longrightarrow>
      generateBlockIdFromAddress (Some p) (Some blockSize) =
        Some (streetName p @ ''_'' @ show_int (houseNumber p div blockSize * blockSize) @ ''_''
              @ show_int (houseNumber p div blockSize * blockSize + blockSize - 1)))
   \<and> generateBlockIdFromAddress (Some p) None = generateBlockIdFromAddress (Some p) (Some 100)
   \<and> (houseNumber p = 1200 \<or> houseNumber p = 1299 \<longrightarrow>
      generateBlockIdFromAddress (Some p) None = Some (streetName p @ ''_1200_1299''))
   \<and> (houseNumber p = 0 \<longrightarrow> generateBlockIdFromAddress (Some p) size_arg = None)"
proof (intro conjI impI)
  assume "0 < houseNumber p \<and> 0 < blockSize \<and> houseNumber p + blockSize \<le> 2 ^ 53"
  then show "generateBlockIdFromAddress (Some p) (Some blockSize) =
        Some (streetName p @ ''_'' @ show_int (houseNumber p div blockSize * blockSize) @ ''_''
              @ show_int (houseNumber p div blockSize * blockSize + blockSize - 1))"
    by (simp add: generateBlockIdFromAddress_def block_range_id_nonzero)
next
  show "generateBlockIdFromAddress (Some p) None = generateBlockIdFromAddress (Some p) (Some 100)"
    by (simp add: generateBlockIdFromAddress_def)
next
  assume "houseNumber p = 1200 \<or> houseNumber p = 1299"
  then show "generateBlockIdFromAddress (Some p) None = Some (streetName p @ ''_1200_1299'')"
    by (auto simp: generateBlockIdFromAddress_def block_range_id_nonzero
                   show_int_1200 show_int_1299)
next
  assume "houseNumber p = 0"
  then show "generateBlockIdFromAddress (Some p) size_arg = None"
    by (simp add: generateBlockIdFromAddress_def)
qed

theorem generateBlockIdFromAddress_fixed_size_witness:
  "generateBlockIdFromAddress
     (Some \<lparr>houseNumber = 1234, directional = None, streetName = ''woodward'',
            streetType = Some ''AVE'', fullStreet = ''WOODWARD AVE''\<rparr>) (Some 100)
   = Some (''woodward_'' @ show_int 1200 @ ''_'' @ show_int 1299)"
  using generateBlockIdFromAddress_fixed_size
    [of "\<lparr>houseNumber = 1234, directional = None, streetName = ''woodward'',
            streetType = Some ''AVE'', fullStreet = ''WOODWARD AVE''\<rparr>" 100 None]
  by simp

text \<open>
  C1 as stated fails at the house number 0, which is not negative: the guard
  \<^verbatim>\<open>!parsedAddress.houseNumber\<close> returns \<^verbatim>\<open>null\<close> for it.
\<close>

theorem generateBlockIdFromAddress_zero_counterexample:
  "(0::int) \<le> houseNumber \<lparr>houseNumber = 0, directional = None, streetName = ''main'',
            streetType = Some ''ST'', fullStreet = ''MAIN ST''\<rparr>
   \<and> (0::int) < 100
   \<and> generateBlockIdFromAddress
     (Some \<lparr>houseNumber = 0, directional = None, streetName = ''main'',
            streetType = Some ''ST'', fullStreet = ''MAIN ST''\<rparr>) (Some 100) = None"
  by (simp add: generateBlockIdFromAddress_def)

section \<open>Properties of the street-name normalizer\<close>

lemma name_chars_not_space:
  "\<forall>c\<in>set ''abcdefghijklmnopqrstuvwxyz0123456789_''. \<not> is_space c"
  by code_simp

lemma name_chars_lower:
  "\<forall>c\<in>set ''abcdefghijklmnopqrstuvwxyz0123456789_''. lower_char c = c"
  by code_simp

lemma name_char_not_space: "is_name_char c \<Longrightarrow> \<not> is_space c"
  using name_chars_not_space unfolding is_name_char_def by blast

lemma name_char_lower: "is_name_char c \<Longrightarrow> lower_char c = c"
  using name_chars_lower unfolding is_name_char_def by blast

lemma replace_spaces_id: "\<forall>c\<in>set s. \<not> is_space c \<Longrightarrow> replace_spaces s = s"
  by (induction s) auto

lemma dropWhile_no_space: "\<forall>c\<in>set t. \<not> is_space c \<Longrightarrow> dropWhile is_space t = t"
  by (cases t) auto

lemma trim_id: "\<forall>c\<in>set s. \<not> is_space c \<Longrightarrow> trim s = s"
  by (simp add: trim_def dropWhile_no_space)

lemma normalize_fixed:
  assumes "\<forall>c\<in>set s. is_name_char c"
  shows "normalizeStreetName (Str s) = s"
proof (cases "s = []")
  case True
  then show ?thesis by (simp add: normalizeStreetName_def)
next
  case False
  have l: "toLowerCase s = s"
    using assms by (simp add: toLowerCase_def name_char_lower map_idI)
  have ns: "\<forall>c\<in>set s. \<not> is_space c"
    using assms name_char_not_space by blast
  show ?thesis
    using False assms
    by (simp add: normalizeStreetName_def l trim_id[OF ns] replace_spaces_id[OF ns]
                  remove_special_def)
qed

lemma normalize_chars: "\<forall>c\<in>set (normalizeStreetName a). is_name_char c"
  by (cases a) (auto simp: normalizeStreetName_def remove_special_def)

text \<open>
  C6. Normalizing twice is normalizing once; the result holds only characters of
  \<^verbatim>\<open>[a-z0-9_]\<close>; the empty string, \<^verbatim>\<open>null\<close> and \<^verbatim>\<open>undefined\<close> give the empty string.
\<close>

theorem normalizeStreetName_idempotent:
  "normalizeStreetName (Str (normalizeStreetName a)) = normalizeStreetName a
   \<and> (\<forall>c\<in>set (normalizeStreetName a). is_name_char c)
   \<and> normalizeStreetName (Str []) = []
   \<and> normalizeStreetName Null = []
   \<and> normalizeStreetName Undefined = []"
  using normalize_fixed[OF normalize_chars] normalize_chars
  by (simp add: normalizeStreetName_def)

theorem normalizeStreetName_idempotent_witness:
  "normalizeStreetName (Str ''  E.  Grand   Blvd #2 '') = ''e_grand_blvd_2''
   \<and> normalizeStreetName (Str ''e_grand_blvd_2'') = ''e_grand_blvd_2''
   \<and> list_all is_name_char ''e_grand_blvd_2''"
proof -
  have e: "normalizeStreetName (Str ''  E.  Grand   Blvd #2 '') = ''e_grand_blvd_2''"
    by code_simp
  show ?thesis
    using normalizeStreetName_idempotent[of "Str ''  E.  Grand   Blvd #2 ''"] unfolding e
    by (simp add: list_all_iff)
qed

section \<open>Properties of the address parser\<close>

text \<open>
  C3 (the code departs from the claim). \<^verbatim>\<open>"15000 7 Mile Rd"\<close> ends in the street-type token
  \<^verbatim>\<open>RD\<close>, so the primary pattern matches it, with the street words \<^verbatim>\<open>7 MILE\<close>: the
  fallback pattern is not reached and the normalized street name is \<^verbatim>\<open>7_mile\<close>, not
  \<^verbatim>\<open>7_mile_rd\<close>.
\<close>

theorem parseAddress_7_mile_primary_pattern:
  "re_exec addressRegex 4 (toUpperCase (trim ''15000 7 Mile Rd''))
     = Some [Some ''15000'', None, Some ''7 MILE'', Some ''RD'']
   \<and> parseAddress (Str ''15000 7 Mile Rd'')
     = Some \<lparr>houseNumber = 15000, directional = None, streetName = ''7_mile'',
             streetType = Some ''RD'', fullStreet = ''7 MILE RD''\<rparr>"
  by code_simp

section \<open>Properties of the natural-boundary detector\<close>

lemma boundary_loop_concat:
  "concat (map addresses (boundary_loop g cur prev xs)) = addresses cur @ xs"
  by (induction xs arbitrary: cur prev) (simp_all add: Let_def)

lemma boundary_loop_starts:
  "i \<in> set (boundary_starts k (boundary_loop g cur prev xs)) \<longleftrightarrow>
     i = k \<or> (\<exists>j<length xs. i = k + length (addresses cur) + j
                \<and> number_of (xs ! j) - (if j = 0 then prev else number_of (xs ! (j - 1))) > g)"
proof (induction xs arbitrary: cur prev k)
  case Nil
  then show ?case by simp
next
  case (Cons a rest)
  define n where "n = length (addresses cur)"
  define cond where "cond = (\<lambda>j. number_of ((a # rest) ! j)
                  - (if j = 0 then prev else number_of ((a # rest) ! (j - 1))) > g)"
  define condr where "condr = (\<lambda>j. number_of (rest ! j)
                  - (if j = 0 then number_of a else number_of (rest ! (j - 1))) > g)"
  have shift: "cond (Suc j) = condr j" for j
    by (simp add: cond_def condr_def nth_Cons')
  have c0: "cond 0 \<longleftrightarrow> number_of a - prev > g"
    by (simp add: cond_def)
  have ex_split: "(\<exists>j<length (a # rest). P j) \<longleftrightarrow> P 0 \<or> (\<exists>j<length rest. P (Suc j))" for P
    by (simp add: less_Suc_eq_0_disj) blast
  have ih: "i \<in> set (boundary_starts k' (boundary_loop g cur' (number_of a) rest)) \<longleftrightarrow>
     i = k' \<or> (\<exists>j<length rest. i = k' + length (addresses cur') + j \<and> condr j)" for k' cur'
    unfolding condr_def by (rule Cons.IH)
  have goal: "(\<exists>j<length (a # rest). i = k + n + j \<and> cond j) \<longleftrightarrow>
              (i = k + n \<and> number_of a - prev > g)
              \<or> (\<exists>j<length rest. i = k + n + Suc j \<and> condr j)"
    by (simp only: ex_split[of "\<lambda>j. i = k + n + j \<and> cond j"] shift c0 add_0_right)
  show ?case
  proof (cases "number_of a - prev > g")
    case True
    have "i \<in> set (boundary_starts k (boundary_loop g cur prev (a # rest))) \<longleftrightarrow>
          i = k \<or> i \<in> set (boundary_starts (k + n)
             (boundary_loop g \<lparr>b_start = number_of a, b_end = number_of a, addresses = [a]\<rparr>
                (number_of a) rest))"
      using True by (simp add: Let_def n_def)
    also have "\<dots> \<longleftrightarrow> i = k \<or> i = k + n \<or> (\<exists>j<length rest. i = k + n + Suc j \<and> condr j)"
      by (simp add: ih)
    also have "\<dots> \<longleftrightarrow> i = k \<or> (\<exists>j<length (a # rest). i = k + n + j \<and> cond j)"
      using True by (simp only: goal simp_thms)
    finally show ?thesis unfolding n_def cond_def .
  next
    case False
    have "i \<in> set (boundary_starts k (boundary_loop g cur prev (a # rest))) \<longleftrightarrow>
          i \<in> set (boundary_starts k
             (boundary_loop g (cur\<lparr>b_end := number_of a, addresses := addresses cur @ [a]\<rparr>)
                (number_of a) rest))"
      using False by (simp add: Let_def)
    also have "\<dots> \<longleftrightarrow> i = k \<or> (\<exists>j<length rest. i = k + n + Suc j \<and> condr j)"
      by (simp add: ih n_def)
    also have "\<dots> \<longleftrightarrow> i = k \<or> (\<exists>j<length (a # rest). i = k + n + j \<and> cond j)"
      using False by (simp only: goal simp_thms)
    finally show ?thesis unfolding n_def cond_def .
  qed
qed

lemma boundary_loop_bounds:
  "addresses cur \<noteq> [] \<Longrightarrow> b_start cur = number_of (hd (addresses cur)) \<Longrightarrow>
   b_end cur = prev \<Longrightarrow> prev = number_of (last (addresses cur)) \<Longrightarrow>
   b \<in> set (boundary_loop g cur prev xs) \<Longrightarrow>
   addresses b \<noteq> [] \<and> b_start b = number_of (hd (addresses b))
     \<and> b_end b = number_of (last (addresses b))"
proof (induction xs arbitrary: cur prev)
  case Nil
  then show ?case by simp
next
  case (Cons a rest)
  show ?case
  proof (cases "number_of a - prev > g")
    case True
    with Cons.prems(5) have "b = cur\<lparr>b_end := prev\<rparr> \<or>
       b \<in> set (boundary_loop g \<lparr>b_start = number_of a, b_end = number_of a, addresses = [a]\<rparr>
                (number_of a) rest)"
      by (simp add: Let_def)
    then show ?thesis
    proof
      assume "b = cur\<lparr>b_end := prev\<rparr>"
      with Cons.prems show ?thesis by simp
    next
      assume "b \<in> set (boundary_loop g \<lparr>b_start = number_of a, b_end = number_of a, addresses = [a]\<rparr>
                (number_of a) rest)"
      from Cons.IH[OF _ _ _ _ this] show ?thesis by simp
    qed
  next
    case False
    with Cons.prems(5) have "b \<in> set (boundary_loop g
        (cur\<lparr>b_end := number_of a, addresses := addresses cur @ [a]\<rparr>) (number_of a) rest)"
      by (simp add: Let_def)
    from Cons.IH[OF _ _ _ _ this] Cons.prems(1,2) show ?thesis by simp
  qed
qed

lemma sorted_addresses_Nil: "sorted_addresses [] = []"
  by (simp add: sorted_addresses_def)

lemma detect_concat:
  "concat (map addresses (detectBlockBoundaries addrs (Some g))) = sorted_addresses addrs"
  by (cases "sorted_addresses addrs")
     (auto simp: detectBlockBoundaries_def boundary_loop_concat sorted_addresses_Nil)

lemma detect_starts:
  assumes "0 < i" "i < length (sorted_addresses addrs)"
  shows "i \<in> set (boundary_starts 0 (detectBlockBoundaries addrs (Some g))) \<longleftrightarrow>
         number_of (sorted_addresses addrs ! i) - number_of (sorted_addresses addrs ! (i - 1)) > g"
proof (cases "sorted_addresses addrs")
  case Nil
  with assms show ?thesis by simp
next
  case (Cons first rest)
  then have ne: "addrs \<noteq> []" by (auto simp: sorted_addresses_Nil)
  from assms obtain i' where i': "i = Suc i'" "i' < length rest"
    using Cons by (cases i) auto
  have "i \<in> set (boundary_starts 0 (detectBlockBoundaries addrs (Some g))) \<longleftrightarrow>
        (\<exists>j<length rest. i = 1 + j
           \<and> number_of (rest ! j) - (if j = 0 then number_of first else number_of (rest ! (j - 1))) > g)"
    using ne Cons assms(1) by (simp add: detectBlockBoundaries_def boundary_loop_starts)
  also have "\<dots> \<longleftrightarrow> number_of (rest ! i') - (if i' = 0 then number_of first else number_of (rest ! (i' - 1))) > g"
    using i' by auto
  also have "\<dots> \<longleftrightarrow> number_of ((first # rest) ! i) - number_of ((first # rest) ! (i - 1)) > g"
    using i' by (simp add: nth_Cons')
  finally show ?thesis using Cons by simp
qed

lemma detect_bounds:
  assumes "b \<in> set (detectBlockBoundaries addrs (Some g))"
  shows "addresses b \<noteq> [] \<and> b_start b = number_of (hd (addresses b))
     \<and> b_end b = number_of (last (addresses b))"
proof (cases "sorted_addresses addrs")
  case Nil
  with assms show ?thesis by (simp add: detectBlockBoundaries_def split: if_splits)
next
  case (Cons first rest)
  with assms have "b \<in> set (boundary_loop g
       \<lparr>b_start = number_of first, b_end = number_of first, addresses = [first]\<rparr>
       (number_of first) rest)"
    by (simp add: detectBlockBoundaries_def split: if_splits)
  from boundary_loop_bounds[OF _ _ _ _ this] show ?thesis by simp
qed

lemma woodward_single_group:
  "map (\<lambda>b. (b_start b, b_end b, map (parcel_id \<circ> fst) (addresses b)))
       (detectBlockBoundaries woodward_example (Some 50))
   = [(1201, 1315, [''001'', ''002'', ''003'', ''004'', ''005'', ''006'', ''007'', ''008'',
                    ''009'', ''010'', ''011''])]"
  by code_simp

text \<open>
  C2. The parsed addresses are sorted by house number, and the groups are consecutive runs
  of the sorted sequence, each with the first and the
  last house number of its run; a position after the first starts a new group exactly when
  its house number exceeds the previous one by more than the gap threshold. So, for a
  threshold that is not negative, equal consecutive house numbers stay in one group. An
  omitted threshold is 50, and the Woodward parcels 1201 to 1315 (largest gap 46) form a
  single group from 1201 to 1315 at the threshold 50.
\<close>

theorem detectBlockBoundaries_gap_rule:
  "concat (map addresses (detectBlockBoundaries addrs (Some g))) = sorted_addresses addrs
   \<and> (\<forall>b\<in>set (detectBlockBoundaries addrs (Some g)).
        addresses b \<noteq> [] \<and> b_start b = number_of (hd (addresses b))
        \<and> b_end b = number_of (last (addresses b)))
   \<and> (\<forall>i. 0 < i \<and> i < length (sorted_addresses addrs) \<longrightarrow>
        (i \<in> set (boundary_starts 0 (detectBlockBoundaries addrs (Some g))) \<longleftrightarrow>
           number_of (sorted_addresses addrs ! i)
             - number_of (sorted_addresses addrs ! (i - 1)) > g))
   \<and> (\<forall>i. 0 < i \<and> i < length (sorted_addresses addrs) \<and> 0 \<le> g
          \<and> number_of (sorted_addresses addrs ! i) = number_of (sorted_addresses addrs ! (i - 1))
        \<longrightarrow> i \<notin> set (boundary_starts 0 (detectBlockBoundaries addrs (Some g))))
   \<and> detectBlockBoundaries addrs None = detectBlockBoundaries addrs (Some 50)
   \<and> map (\<lambda>b. (b_start b, b_end b, map (parcel_id \<circ> fst) (addresses b)))
       (detectBlockBoundaries woodward_example (Some 50))
     = [(1201, 1315, [''001'', ''002'', ''003'', ''004'', ''005'', ''006'', ''007'', ''008'',
                      ''009'', ''010'', ''011''])]
   \<and> sorted (map number_of (sorted_addresses addrs))"
proof (intro conjI ballI allI impI)
  show "concat (map addresses (detectBlockBoundaries addrs (Some g))) = sorted_addresses addrs"
    by (rule detect_concat)
next
  fix b assume "b \<in> set (detectBlockBoundaries addrs (Some g))"
  from detect_bounds[OF this]
  show "addresses b \<noteq> []" "b_start b = number_of (hd (addresses b))"
    "b_end b = number_of (last (addresses b))" by simp_all
next
  fix i assume "0 < i \<and> i < length (sorted_addresses addrs)"
  then show "i \<in> set (boundary_starts 0 (detectBlockBoundaries addrs (Some g))) \<longleftrightarrow>
           number_of (sorted_addresses addrs ! i)
             - number_of (sorted_addresses addrs ! (i - 1)) > g"
    using detect_starts by blast
next
  fix i assume a: "0 < i \<and> i < length (sorted_addresses addrs) \<and> 0 \<le> g
          \<and> number_of (sorted_addresses addrs ! i) = number_of (sorted_addresses addrs ! (i - 1))"
  then have "\<not> number_of (sorted_addresses addrs ! i)
             - number_of (sorted_addresses addrs ! (i - 1)) > g" by simp
  with a show "i \<notin> set (boundary_starts 0 (detectBlockBoundaries addrs (Some g)))"
    using detect_starts by blast
next
  show "detectBlockBoundaries addrs None = detectBlockBoundaries addrs (Some 50)"
    by (simp add: detectBlockBoundaries_def)
next
  show "map (\<lambda>b. (b_start b, b_end b, map (parcel_id \<circ> fst) (addresses b)))
       (detectBlockBoundaries woodward_example (Some 50))
     = [(1201, 1315, [''001'', ''002'', ''003'', ''004'', ''005'', ''006'', ''007'', ''008'',
                      ''009'', ''010'', ''011''])]"
    by (rule woodward_single_group)
next
  show "sorted (map number_of (sorted_addresses addrs))"
    by (simp add: sorted_addresses_def)
qed

lemma gap_example_sorted:
  "map (\<lambda>a. (parcel_id (fst a), number_of a))
       (sorted_addresses
          [\<lparr>parcel_id = ''a'', address = Str ''100 Main St''\<rparr>,
           \<lparr>parcel_id = ''b'', address = Str ''10 Main St''\<rparr>,
           \<lparr>parcel_id = ''c'', address = Str ''10 Main St''\<rparr>])
   = [(''b'', 10), (''c'', 10), (''a'', 100)]"
  by code_simp

theorem detectBlockBoundaries_gap_rule_witness:
  "1 \<notin> set (boundary_starts 0 (detectBlockBoundaries
          [\<lparr>parcel_id = ''a'', address = Str ''100 Main St''\<rparr>,
           \<lparr>parcel_id = ''b'', address = Str ''10 Main St''\<rparr>,
           \<lparr>parcel_id = ''c'', address = Str ''10 Main St''\<rparr>] (Some 50)))
   \<and> 2 \<in> set (boundary_starts 0 (detectBlockBoundaries
          [\<lparr>parcel_id = ''a'', address = Str ''100 Main St''\<rparr>,
           \<lparr>parcel_id = ''b'', address = Str ''10 Main St''\<rparr>,
           \<lparr>parcel_id = ''c'', address = Str ''10 Main St''\<rparr>] (Some 50)))"
proof -
  define ex where "ex = [\<lparr>parcel_id = ''a'', address = Str ''100 Main St''\<rparr>,
           \<lparr>parcel_id = ''b'', address = Str ''10 Main St''\<rparr>,
           \<lparr>parcel_id = ''c'', address = Str ''10 Main St''\<rparr>]"
  define s where "s = sorted_addresses ex"
  define B where "B = set (boundary_starts 0 (detectBlockBoundaries ex (Some 50)))"
  have m: "map number_of s = [10, 10, 100]"
    using arg_cong[OF gap_example_sorted, of "map snd"] by (simp add: ex_def s_def comp_def)
  have len: "length s = 3"
    using arg_cong[OF m, of length] by simp
  have n0: "number_of (s ! 0) = 10"
    using arg_cong[OF m, of "\<lambda>l. l ! 0"] len by simp
  have n1: "number_of (s ! 1) = 10"
    using arg_cong[OF m, of "\<lambda>l. l ! 1"] len by simp
  have n2: "number_of (s ! 2) = 100"
    using arg_cong[OF m, of "\<lambda>l. l ! 2"] len by simp
  have rule: "0 < i \<and> i < length s \<longrightarrow>
                (i \<in> B \<longleftrightarrow> number_of (s ! i) - number_of (s ! (i - 1)) > 50)" for i
    using detectBlockBoundaries_gap_rule[of ex 50, THEN conjunct2, THEN conjunct2, THEN conjunct1]
    unfolding s_def B_def by (rule spec)
  have d: "(2::nat) - 1 = 1" "(1::nat) - 1 = 0" by simp_all
  have "1 \<notin> B"
    using rule[of 1] by (simp only: len d n0 n1) simp
  moreover have "2 \<in> B"
    using rule[of 2] by (simp only: len d n1 n2) simp
  ultimately show ?thesis unfolding B_def ex_def by simp
qed

section \<open>Properties of the batch assignment\<close>

lemma appendsI:
  "(\<And>rs bs. F (rs, bs) = (rs @ G bs, H bs)) \<Longrightarrow> (\<And>bs r. r \<in> set (G bs) \<Longrightarrow> \<not> parse_error r)
   \<Longrightarrow> appends F"
  unfolding appends_def by blast

lemma appends_id: "appends (\<lambda>st. st)"
  by (rule appendsI[where G = "\<lambda>_. []" and H = "\<lambda>bs. bs"]) simp_all

lemma appends_comp:
  assumes "appends F" "appends F'"
  shows "appends (\<lambda>st. F' (F st))"
proof -
  from assms(1) obtain G H where
    F: "\<And>rs bs. F (rs, bs) = (rs @ G bs, H bs)" "\<And>bs r. r \<in> set (G bs) \<Longrightarrow> \<not> parse_error r"
    unfolding appends_def by blast
  from assms(2) obtain G' H' where
    F': "\<And>rs bs. F' (rs, bs) = (rs @ G' bs, H' bs)" "\<And>bs r. r \<in> set (G' bs) \<Longrightarrow> \<not> parse_error r"
    unfolding appends_def by blast
  show ?thesis
  proof (rule appendsI[where G = "\<lambda>bs. G bs @ G' (H bs)" and H = "\<lambda>bs. H' (H bs)"])
    fix rs bs show "F' (F (rs, bs)) = (rs @ G bs @ G' (H bs), H' (H bs))"
      by (simp add: F(1) F'(1))
  next
    fix bs r assume "r \<in> set (G bs @ G' (H bs))"
    then show "\<not> parse_error r" using F(2) F'(2) by auto
  qed
qed

lemma appends_foldl:
  assumes "\<And>x. appends (\<lambda>st. f st x)"
  shows "appends (\<lambda>st. foldl f st xs)"
proof (induction xs)
  case Nil
  show ?case by (simp add: appends_id)
next
  case (Cons x xs)
  from appends_comp[OF assms[of x] Cons.IH] show ?case by simp
qed

lemma appends_record: "appends (\<lambda>st. record_assignment bid method st a)"
  by (rule appendsI[where
        G = "\<lambda>bs. [\<lparr>parcel = fst a, parsed = Some (snd a), block_id = bid,
                     parse_error = False, block_method = Some method\<rparr>]"
        and H = "\<lambda>bs. snd (record_assignment bid method ([], bs) a)"])
     (simp_all add: record_assignment_def Let_def)

lemma appends_street: "appends (\<lambda>st. process_street blkSize natural gap st g)"
proof (cases natural)
  case True
  have "appends (\<lambda>st. foldl (\<lambda>st1 bnd.
                 foldl (record_assignment (Some (block_range_id (fst g) (b_start bnd) blkSize))
                          ''natural_boundary'')
                       st1 (addresses bnd))
              st (detectBlockBoundaries (map fst (snd g)) (Some gap)))"
    by (intro appends_foldl appends_record)
  with True show ?thesis by (simp add: process_street_def)
next
  case False
  have "appends (\<lambda>st. foldl (\<lambda>st1 a.
                 record_assignment (generateBlockIdFromAddress (Some (snd a)) (Some blkSize))
                   ''fixed_size'' st1 a)
              st (snd g))"
    by (intro appends_foldl appends_record)
  with False show ?thesis by (simp add: process_street_def)
qed

lemma group_parcel_unparsable:
  "\<not> parsable p \<Longrightarrow> group_parcel st p = (fst st @ [error_row p], snd st)"
  by (simp add: group_parcel_def parsable_def)

lemma group_parcel_parsable:
  "parsable p \<Longrightarrow> fst (group_parcel st p) = fst st
     \<and> snd (group_parcel st p) = snd (group_parcel (rs, snd st) p)"
  by (auto simp: group_parcel_def parsable_def Let_def)

lemma group_results:
  "fst (foldl group_parcel st ps) = fst st @ map error_row (filter (\<lambda>p. \<not> parsable p) ps)"
proof (induction ps arbitrary: st)
  case Nil
  show ?case by simp
next
  case (Cons p ps)
  show ?case
    by (cases "parsable p")
       (simp_all add: Cons.IH group_parcel_unparsable group_parcel_parsable)
qed

lemma group_streets:
  "snd st = snd st' \<Longrightarrow>
   snd (foldl group_parcel st ps) = snd (foldl group_parcel st' (filter parsable ps))"
proof (induction ps arbitrary: st st')
  case Nil
  then show ?case by simp
next
  case (Cons p ps)
  show ?case
  proof (cases "parsable p")
    case True
    have "snd (group_parcel st p) = snd (group_parcel st' p)"
      using group_parcel_parsable[OF True, of st "fst st'"] Cons.prems by simp
    from Cons.IH[OF this] True show ?thesis by simp
  next
    case False
    have "snd (group_parcel st p) = snd st'"
      using Cons.prems False by (simp add: group_parcel_unparsable)
    from Cons.IH[OF this] False show ?thesis by simp
  qed
qed

lemma filter_parsable_none: "filter (\<lambda>p. \<not> parsable p) (filter parsable ps) = []"
  by (induction ps) auto

lemma process_parcels_shape:
  "\<exists>rows. (\<forall>r\<in>set rows. \<not> parse_error r)
     \<and> fst (process_parcels ps opts) = map error_row (filter (\<lambda>p. \<not> parsable p) ps) @ rows
     \<and> process_parcels (filter parsable ps) opts = (rows, snd (process_parcels ps opts))"
proof -
  define blkSize where "blkSize = (case opt_blockSize opts of None \<Rightarrow> 100 | Some b \<Rightarrow> b)"
  define natural where
    "natural = (case opt_useNaturalBoundaries opts of None \<Rightarrow> False | Some u \<Rightarrow> u)"
  define gap where "gap = (case opt_gapThreshold opts of None \<Rightarrow> 50 | Some g \<Rightarrow> g)"
  define groups where "groups = snd (foldl group_parcel ([], []) ps)"
  have "appends (\<lambda>st. foldl (process_street blkSize natural gap) st groups)"
    by (intro appends_foldl appends_street)
  then obtain G H where
    F: "\<And>rs bs. foldl (process_street blkSize natural gap) (rs, bs) groups = (rs @ G bs, H bs)"
    and G: "\<And>bs r. r \<in> set (G bs) \<Longrightarrow> \<not> parse_error r"
    unfolding appends_def by blast
  have g': "snd (foldl group_parcel ([], []) (filter parsable ps)) = groups"
    unfolding groups_def by (rule group_streets[symmetric]) simp
  have r': "fst (foldl group_parcel ([], []) (filter parsable ps)) = []"
    by (simp add: group_results filter_parsable_none)
  have r: "fst (foldl group_parcel ([], []) ps) = map error_row (filter (\<lambda>p. \<not> parsable p) ps)"
    by (simp add: group_results)
  have 1: "process_parcels ps opts
           = (map error_row (filter (\<lambda>p. \<not> parsable p) ps) @ G [], H [], groups)"
    using F[of "fst (foldl group_parcel ([], []) ps)" "[]"] r
    by (simp add: process_parcels_def Let_def blkSize_def natural_def gap_def groups_def)
  have 2: "process_parcels (filter parsable ps) opts = (G [], H [], groups)"
    using F[of "[]" "[]"] r' g'
    by (simp add: process_parcels_def Let_def blkSize_def natural_def gap_def)
  show ?thesis
    by (rule exI[where x = "G []"]) (simp add: 1 2 G)
qed


lemma unparsable_examples:
  "parseAddress (Str ''Woodward Ave'') = None \<and> parseAddress (Str []) = None
   \<and> parseAddress Null = None \<and> parseAddress Undefined = None"
  by code_simp

text \<open>
  C4. The parcels whose address does not parse come first in the output, in input order,
  each once, with the error flag and a \<^verbatim>\<open>null\<close> block id, and they are the only rows with
  the flag; the rest of the output, the block statistics, the number of blocks and the
  number of streets are those of the input without these parcels; the error count is their
  number. An address without a number, the empty string and \<^verbatim>\<open>null\<close> do not parse.
\<close>

theorem assignBlockIds_parse_errors:
  "parcels (assignBlockIds ps opts)
     = map error_row (filter (\<lambda>p. \<not> parsable p) ps)
       @ parcels (assignBlockIds (filter parsable ps) opts)
   \<and> filter parse_error (parcels (assignBlockIds ps opts))
     = map error_row (filter (\<lambda>p. \<not> parsable p) ps)
   \<and> block_id (error_row p) = None \<and> parse_error (error_row p) \<and> parcel (error_row p) = p
   \<and> blockStats (assignBlockIds ps opts) = blockStats (assignBlockIds (filter parsable ps) opts)
   \<and> uniqueBlocks (summary (assignBlockIds ps opts))
     = uniqueBlocks (summary (assignBlockIds (filter parsable ps) opts))
   \<and> uniqueStreets (summary (assignBlockIds ps opts))
     = uniqueStreets (summary (assignBlockIds (filter parsable ps) opts))
   \<and> parseErrors (summary (assignBlockIds ps opts)) = length (filter (\<lambda>p. \<not> parsable p) ps)
   \<and> \<not> parsable \<lparr>parcel_id = i, address = Str ''Woodward Ave''\<rparr>
   \<and> \<not> parsable \<lparr>parcel_id = i, address = Str []\<rparr>
   \<and> \<not> parsable \<lparr>parcel_id = i, address = Null\<rparr>"
proof -
  from process_parcels_shape[of ps opts] obtain rows where
    rows: "\<forall>r\<in>set rows. \<not> parse_error r"
    and all: "fst (process_parcels ps opts)
              = map error_row (filter (\<lambda>p. \<not> parsable p) ps) @ rows"
    and flt: "process_parcels (filter parsable ps) opts = (rows, snd (process_parcels ps opts))"
    by blast
  obtain stats groups where sg: "snd (process_parcels ps opts) = (stats, groups)"
    by (cases "snd (process_parcels ps opts)")
  have full: "process_parcels ps opts
              = (map error_row (filter (\<lambda>p. \<not> parsable p) ps) @ rows, stats, groups)"
    using all sg by (cases "process_parcels ps opts") simp
  have part: "process_parcels (filter parsable ps) opts = (rows, stats, groups)"
    using flt sg by simp
  have no_err: "filter parse_error rows = []"
    using rows by (simp add: filter_empty_conv)
  have errs: "filter parse_error (map error_row xs) = map error_row xs" for xs
    by (induction xs) (simp_all add: error_row_def)
  show ?thesis
    by (simp add: assignBlockIds_def full part no_err errs parsable_def unparsable_examples)
       (simp add: error_row_def)
qed

theorem assignBlockIds_parse_errors_witness:
  "parseErrors (summary (assignBlockIds
      [\<lparr>parcel_id = ''014'', address = Str ''520 E Jefferson Ave''\<rparr>,
       \<lparr>parcel_id = ''015'', address = Str ''Woodward Ave''\<rparr>,
       \<lparr>parcel_id = ''016'', address = Str []\<rparr>,
       \<lparr>parcel_id = ''017'', address = Null\<rparr>]
      \<lparr>opt_blockSize = None, opt_useNaturalBoundaries = None, opt_gapThreshold = None\<rparr>)) = 3
   \<and> blockStats (assignBlockIds
      [\<lparr>parcel_id = ''014'', address = Str ''520 E Jefferson Ave''\<rparr>,
       \<lparr>parcel_id = ''015'', address = Str ''Woodward Ave''\<rparr>,
       \<lparr>parcel_id = ''016'', address = Str []\<rparr>,
       \<lparr>parcel_id = ''017'', address = Null\<rparr>]
      \<lparr>opt_blockSize = None, opt_useNaturalBoundaries = None, opt_gapThreshold = None\<rparr>)
     = blockStats (assignBlockIds
      [\<lparr>parcel_id = ''014'', address = Str ''520 E Jefferson Ave''\<rparr>]
      \<lparr>opt_blockSize = None, opt_useNaturalBoundaries = None, opt_gapThreshold = None\<rparr>)"
proof -
  have p: "parsable \<lparr>parcel_id = ''014'', address = Str ''520 E Jefferson Ave''\<rparr>"
    unfolding parsable_def by code_simp
  have u: "\<not> parsable \<lparr>parcel_id = ''015'', address = Str ''Woodward Ave''\<rparr>"
    "\<not> parsable \<lparr>parcel_id = ''016'', address = Str []\<rparr>"
    "\<not> parsable \<lparr>parcel_id = ''017'', address = Null\<rparr>"
    by (simp_all add: parsable_def unparsable_examples)
  show ?thesis
    using assignBlockIds_parse_errors
      [of "[\<lparr>parcel_id = ''014'', address = Str ''520 E Jefferson Ave''\<rparr>,
            \<lparr>parcel_id = ''015'', address = Str ''Woodward Ave''\<rparr>,
            \<lparr>parcel_id = ''016'', address = Str []\<rparr>,
            \<lparr>parcel_id = ''017'', address = Null\<rparr>]"
          "\<lparr>opt_blockSize = None, opt_useNaturalBoundaries = None, opt_gapThreshold = None\<rparr>"]
    by (simp add: p u)
qed

text \<open>
  C9. In fixed-size mode the parcel \<^verbatim>\<open>"0 Main St"\<close> parses with house number 0; its row has
  a \<^verbatim>\<open>null\<close> block id and no error flag, the statistics get an entry under the key
  \<^verbatim>\<open>null\<close>, and the summary counts one parcel, none assigned and no parse error.
\<close>

theorem assignBlockIds_house_number_zero:
  "process_parcels [\<lparr>parcel_id = ''p1'', address = Str ''0 Main St''\<rparr>]
      \<lparr>opt_blockSize = None, opt_useNaturalBoundaries = None, opt_gapThreshold = None\<rparr>
   = ([\<lparr>parcel = \<lparr>parcel_id = ''p1'', address = Str ''0 Main St''\<rparr>,
        parsed = Some \<lparr>houseNumber = 0, directional = None, streetName = ''main'',
                       streetType = Some ''ST'', fullStreet = ''MAIN ST''\<rparr>,
        block_id = None, parse_error = False, block_method = Some ''fixed_size''\<rparr>],
      [(None, \<lparr>count = 1, minNumber = Fin 0, maxNumber = Fin 0,
               stats_streetName = ''MAIN ST''\<rparr>)],
      [(''main'', [(\<lparr>parcel_id = ''p1'', address = Str ''0 Main St''\<rparr>,
                   \<lparr>houseNumber = 0, directional = None, streetName = ''main'',
                     streetType = Some ''ST'', fullStreet = ''MAIN ST''\<rparr>)])])
   \<and> summary (assignBlockIds [\<lparr>parcel_id = ''p1'', address = Str ''0 Main St''\<rparr>]
        \<lparr>opt_blockSize = None, opt_useNaturalBoundaries = None, opt_gapThreshold = None\<rparr>)
     = \<lparr>totalParcels = 1, successfullyAssigned = 0, parseErrors = 0,
        uniqueBlocks = 1, uniqueStreets = 1\<rparr>
   \<and> blockStats (assignBlockIds [\<lparr>parcel_id = ''p1'', address = Str ''0 Main St''\<rparr>]
        \<lparr>opt_blockSize = None, opt_useNaturalBoundaries = None, opt_gapThreshold = None\<rparr>)
     = [(''null'', \<lparr>count = 1, minNumber = Fin 0, maxNumber = Fin 0,
                    stats_streetName = ''MAIN ST''\<rparr>)]"
  by code_simp






section \<open>Properties of the validator\<close>

lemma block_issues_cases:
  "i \<in> set (block_issues e) \<Longrightarrow>
     issue_blockId i = fst e \<and>
     ((issue_type i = ''sparse_block'' \<and> severity i = ''warning''
        \<and> below_30_percent (count (snd e))
             (expected_count (js_minus (maxNumber (snd e)) (minNumber (snd e)))))
      \<or> (issue_type i = ''small_block'' \<and> severity i = ''info'' \<and> count (snd e) < 3))"
  by (auto simp: block_issues_def Let_def split: if_splits)

lemma block_issues_sparse:
  "(\<exists>i\<in>set (block_issues e). issue_type i = ''sparse_block'') \<longleftrightarrow>
     below_30_percent (count (snd e))
       (expected_count (js_minus (maxNumber (snd e)) (minNumber (snd e))))"
  by (auto simp: block_issues_def Let_def)

lemma block_issues_small:
  "(\<exists>i\<in>set (block_issues e). issue_type i = ''small_block'') \<longleftrightarrow> count (snd e) < 3"
  by (auto simp: block_issues_def Let_def)

lemma issues_set:
  "set (issues (validateBlockAssignments a)) = (\<Union>e\<in>set (blockStats a). set (block_issues e))"
  by (simp add: validateBlockAssignments_def Let_def)

lemma issues_of_block:
  assumes d: "distinct (map fst (blockStats a))" and e: "e \<in> set (blockStats a)"
  shows "(\<exists>i\<in>set (issues (validateBlockAssignments a)). issue_type i = t \<and> issue_blockId i = fst e)
         \<longleftrightarrow> (\<exists>i\<in>set (block_issues e). issue_type i = t)"
proof
  assume "\<exists>i\<in>set (issues (validateBlockAssignments a)). issue_type i = t \<and> issue_blockId i = fst e"
  then obtain i e' where i: "e' \<in> set (blockStats a)" "i \<in> set (block_issues e')"
      "issue_type i = t" "issue_blockId i = fst e"
    by (auto simp: issues_set)
  from block_issues_cases[OF i(2)] i(4) have "fst e' = fst e" by simp
  with d e i(1) have "e' = e" by (metis distinct_map inj_onD)
  with i show "\<exists>i\<in>set (block_issues e). issue_type i = t" by blast
next
  assume "\<exists>i\<in>set (block_issues e). issue_type i = t"
  then obtain i where i: "i \<in> set (block_issues e)" "issue_type i = t" by blast
  from block_issues_cases[OF i(1)] have "issue_blockId i = fst e" by simp
  with i e show "\<exists>i\<in>set (issues (validateBlockAssignments a)). issue_type i = t \<and> issue_blockId i = fst e"
    by (auto simp: issues_set)
qed

lemma no_error_issue:
  "i \<in> set (issues (validateBlockAssignments a)) \<Longrightarrow>
     (issue_type i = ''sparse_block'' \<and> severity i = ''warning'')
     \<or> (issue_type i = ''small_block'' \<and> severity i = ''info'')"
  by (auto simp: issues_set dest!: block_issues_cases)

lemma valid_always: "valid (validateBlockAssignments a)"
proof -
  have "filter (\<lambda>i. severity i = ''error'') (concat (map block_issues (blockStats a))) = []"
    by (auto simp: filter_empty_conv dest!: block_issues_cases)
  then show ?thesis by (simp add: validateBlockAssignments_def Let_def)
qed

lemma map_set_keys:
  "map fst (map_set m k v) = (if k \<in> set (map fst m) then map fst m else map fst m @ [k])"
  by (induction m) auto

lemma map_set_entries: "set (map_set m k v) \<subseteq> insert (k, v) (set m)"
  by (induction m) auto

lemma fromEntries_loop_distinct:
  "distinct (map fst obj) \<Longrightarrow>
   distinct (map fst (foldl (\<lambda>obj e. map_set obj (name (fst e)) (snd e)) obj m))"
  by (induction m arbitrary: obj) (simp_all add: map_set_keys)

lemma fromEntries_loop_values:
  "snd ` set (foldl (\<lambda>obj e. map_set obj (name (fst e)) (snd e)) obj m)
     \<subseteq> snd ` set obj \<union> snd ` set m"
proof (induction m arbitrary: obj)
  case Nil
  show ?case by simp
next
  case (Cons e m)
  have "snd ` set (map_set obj (name (fst e)) (snd e)) \<subseteq> insert (snd e) (snd ` set obj)"
    using map_set_entries[of obj "name (fst e)" "snd e"] by auto
  with Cons.IH[of "map_set obj (name (fst e)) (snd e)"] show ?case by auto
qed

lemma fromEntries_distinct: "distinct (map fst (object_fromEntries m name))"
  by (simp add: object_fromEntries_def fromEntries_loop_distinct)

lemma fromEntries_values: "snd ` set (object_fromEntries m name) \<subseteq> snd ` set m"
  using fromEntries_loop_values[of name "[]" m] by (simp add: object_fromEntries_def)

lemma record_assignment_finite:
  assumes "\<forall>e\<in>set (snd st). finite_stats (snd e)"
  shows "\<forall>e\<in>set (snd (record_assignment bid method st a)). finite_stats (snd e)"
proof -
  define fresh where "fresh = \<lparr>count = 0, minNumber = PosInf, maxNumber = NegInf,
                            stats_streetName = fullStreet (snd a)\<rparr>"
  define stats0 where "stats0 = (if map_has (snd st) bid then snd st
                                 else map_set (snd st) bid fresh)"
  define upd where "upd = (\<lambda>s::block_stats. s\<lparr>count := count s + 1,
                    minNumber := js_min (minNumber s) (number_of a),
                    maxNumber := js_max (maxNumber s) (number_of a)\<rparr>)"
  have r: "snd (record_assignment bid method st a) = map_modify stats0 bid upd"
    by (simp add: record_assignment_def Let_def stats0_def fresh_def upd_def)
  have s0: "\<forall>e\<in>set stats0. finite_stats (snd e) \<or> e = (bid, fresh)"
    using assms map_set_entries[of "snd st" bid fresh] by (auto simp: stats0_def)
  have u1: "finite_stats s \<Longrightarrow> finite_stats (upd s)" for s
    by (auto simp: finite_stats_def upd_def js_min_def js_max_def)
  have u2: "finite_stats (upd fresh)"
    by (simp add: finite_stats_def upd_def fresh_def js_min_def js_max_def)
  show ?thesis
    unfolding r map_modify_def using s0 u1 u2 by fastforce
qed

lemma foldl_invariant:
  "(\<And>st x. P st \<Longrightarrow> P (f st x)) \<Longrightarrow> P st \<Longrightarrow> P (foldl f st xs)"
  by (induction xs arbitrary: st) simp_all

lemma process_street_finite:
  assumes "\<forall>e\<in>set (snd st). finite_stats (snd e)"
  shows "\<forall>e\<in>set (snd (process_street blkSize natural gap st g)). finite_stats (snd e)"
proof (cases natural)
  case True
  have "\<forall>e\<in>set (snd (foldl (\<lambda>st1 bnd.
                 foldl (record_assignment (Some (block_range_id (fst g) (b_start bnd) blkSize))
                          ''natural_boundary'')
                       st1 (addresses bnd))
              st (detectBlockBoundaries (map fst (snd g)) (Some gap)))). finite_stats (snd e)"
    by (rule foldl_invariant[where P = "\<lambda>st. \<forall>e\<in>set (snd st). finite_stats (snd e)"],
        rule foldl_invariant[where P = "\<lambda>st. \<forall>e\<in>set (snd st). finite_stats (snd e)"],
        rule record_assignment_finite) (use assms in auto)
  with True show ?thesis by (simp add: process_street_def)
next
  case False
  have "\<forall>e\<in>set (snd (foldl (\<lambda>st1 a.
                 record_assignment (generateBlockIdFromAddress (Some (snd a)) (Some blkSize))
                   ''fixed_size'' st1 a)
              st (snd g))). finite_stats (snd e)"
    by (rule foldl_invariant[where P = "\<lambda>st. \<forall>e\<in>set (snd st). finite_stats (snd e)"],
        rule record_assignment_finite) (use assms in auto)
  with False show ?thesis by (simp add: process_street_def)
qed

lemma process_parcels_finite:
  "\<forall>e\<in>set (fst (snd (process_parcels ps opts))). finite_stats (snd e)"
proof -
  have "\<forall>e\<in>set (snd (foldl (process_street blkSize natural gap) (rs, []) groups)).
          finite_stats (snd e)" for blkSize natural gap rs groups
    by (rule foldl_invariant[where P = "\<lambda>st. \<forall>e\<in>set (snd st). finite_stats (snd e)"],
        rule process_street_finite) auto
  then show ?thesis by (simp add: process_parcels_def Let_def)
qed

lemma assignBlockIds_stats_wellformed:
  "distinct (map fst (blockStats (assignBlockIds ps opts)))
   \<and> (\<forall>e\<in>set (blockStats (assignBlockIds ps opts)). finite_stats (snd e))"
proof -
  obtain results stats groups where p: "process_parcels ps opts = (results, stats, groups)"
    by (cases "process_parcels ps opts")
  have f: "\<forall>e\<in>set stats. finite_stats (snd e)"
    using process_parcels_finite[of ps opts] p by simp
  have b: "blockStats (assignBlockIds ps opts) = object_fromEntries stats key_string"
    by (simp add: assignBlockIds_def p)
  have v: "finite_stats (snd e)" if "e \<in> set (object_fromEntries stats key_string)" for e
  proof -
    from that have "snd e \<in> snd ` set stats"
      using fromEntries_values[of stats key_string] by blast
    then obtain e' where e': "e' \<in> set stats" "snd e = snd e'"
      by (rule imageE)
    from f e'(1) have "finite_stats (snd e')" by (rule bspec)
    with e'(2) show ?thesis by simp
  qed
  show ?thesis
    unfolding b using fromEntries_distinct[of stats key_string] v by blast
qed

lemma validation_properties:
  "valid (validateBlockAssignments a)
   \<and> (\<forall>i\<in>set (issues (validateBlockAssignments a)).
        severity i \<noteq> ''error''
        \<and> ((issue_type i = ''sparse_block'' \<and> severity i = ''warning'')
           \<or> (issue_type i = ''small_block'' \<and> severity i = ''info'')))
   \<and> (distinct (map fst (blockStats a)) \<longrightarrow>
        (\<forall>e\<in>set (blockStats a).
           ((\<exists>i\<in>set (issues (validateBlockAssignments a)).
                issue_type i = ''small_block'' \<and> issue_blockId i = fst e)
              \<longleftrightarrow> count (snd e) < 3)
           \<and> (\<forall>lo hi. minNumber (snd e) = Fin lo \<and> maxNumber (snd e) = Fin hi \<longrightarrow>
                ((\<exists>i\<in>set (issues (validateBlockAssignments a)).
                     issue_type i = ''sparse_block'' \<and> issue_blockId i = fst e)
                   \<longleftrightarrow> (of_nat (count (snd e)) :: rat)
                          < of_int ((hi - lo) div 2 + 1) * (3 / 10)))))"
proof (intro conjI ballI impI allI)
  show "valid (validateBlockAssignments a)" by (rule valid_always)
next
  fix i assume "i \<in> set (issues (validateBlockAssignments a))"
  from no_error_issue[OF this]
  show "severity i \<noteq> ''error''" by auto
next
  fix i assume "i \<in> set (issues (validateBlockAssignments a))"
  from no_error_issue[OF this]
  show "(issue_type i = ''sparse_block'' \<and> severity i = ''warning'')
           \<or> (issue_type i = ''small_block'' \<and> severity i = ''info'')" .
next
  fix e assume "distinct (map fst (blockStats a))" "e \<in> set (blockStats a)"
  then show "(\<exists>i\<in>set (issues (validateBlockAssignments a)).
                issue_type i = ''small_block'' \<and> issue_blockId i = fst e)
              \<longleftrightarrow> count (snd e) < 3"
    by (simp only: issues_of_block block_issues_small)
next
  fix e lo hi
  assume d: "distinct (map fst (blockStats a))" "e \<in> set (blockStats a)"
    and f: "minNumber (snd e) = Fin lo \<and> maxNumber (snd e) = Fin hi"
  have "(\<exists>i\<in>set (issues (validateBlockAssignments a)).
                     issue_type i = ''sparse_block'' \<and> issue_blockId i = fst e)
        \<longleftrightarrow> below_30_percent (count (snd e))
             (expected_count (js_minus (maxNumber (snd e)) (minNumber (snd e))))"
    using d by (simp only: issues_of_block block_issues_sparse)
  also have "\<dots> \<longleftrightarrow> (of_nat (count (snd e)) :: rat) < of_int ((hi - lo) div 2 + 1) * (3 / 10)"
    using f by (simp add: below_30_percent_def expected_count_def js_minus_def)
  finally show "(\<exists>i\<in>set (issues (validateBlockAssignments a)).
                     issue_type i = ''sparse_block'' \<and> issue_blockId i = fst e)
                   \<longleftrightarrow> (of_nat (count (snd e)) :: rat)
                          < of_int ((hi - lo) div 2 + 1) * (3 / 10)" .
qed

text \<open>
  C8. The validator always answers \<open>valid\<close>. Every issue is a \<^verbatim>\<open>sparse_block\<close> warning or
  a \<^verbatim>\<open>small_block\<close> info, never an error. For a block of the statistics (whose keys are
  distinct), a small-block issue is emitted exactly when its count is below 3, and a
  sparse-block issue exactly when its count is below three tenths of
  \<open>floor ((maxNumber - minNumber) / 2) + 1\<close>. The statistics that \<^verbatim>\<open>assignBlockIds\<close>
  returns have distinct keys and house numbers as bounds.
\<close>

theorem validateBlockAssignments_always_valid:
  "(valid (validateBlockAssignments a)
   \<and> (\<forall>i\<in>set (issues (validateBlockAssignments a)).
        severity i \<noteq> ''error''
        \<and> ((issue_type i = ''sparse_block'' \<and> severity i = ''warning'')
           \<or> (issue_type i = ''small_block'' \<and> severity i = ''info'')))
   \<and> (distinct (map fst (blockStats a)) \<longrightarrow>
        (\<forall>e\<in>set (blockStats a).
           ((\<exists>i\<in>set (issues (validateBlockAssignments a)).
                issue_type i = ''small_block'' \<and> issue_blockId i = fst e)
              \<longleftrightarrow> count (snd e) < 3)
           \<and> (\<forall>lo hi. minNumber (snd e) = Fin lo \<and> maxNumber (snd e) = Fin hi \<longrightarrow>
                ((\<exists>i\<in>set (issues (validateBlockAssignments a)).
                     issue_type i = ''sparse_block'' \<and> issue_blockId i = fst e)
                   \<longleftrightarrow> (of_nat (count (snd e)) :: rat)
                          < of_int ((hi - lo) div 2 + 1) * (3 / 10))))))
   \<and> distinct (map fst (blockStats (assignBlockIds ps opts)))
   \<and> (\<forall>e\<in>set (blockStats (assignBlockIds ps opts)). finite_stats (snd e))"
  using validation_properties[of a] assignBlockIds_stats_wellformed[of ps opts]
  by (rule conjI)

theorem validateBlockAssignments_always_valid_witness:
  "valid (validateBlockAssignments
     \<lparr>parcels = [],
      blockStats = [(''main_1200_1299'', \<lparr>count = 2, minNumber = Fin 1201,
                       maxNumber = Fin 1260, stats_streetName = ''MAIN ST''\<rparr>)],
      summary = \<lparr>totalParcels = 2, successfullyAssigned = 2, parseErrors = 0,
                  uniqueBlocks = 1, uniqueStreets = 1\<rparr>\<rparr>)
   \<and> (\<exists>i\<in>set (issues (validateBlockAssignments
     \<lparr>parcels = [],
      blockStats = [(''main_1200_1299'', \<lparr>count = 2, minNumber = Fin 1201,
                       maxNumber = Fin 1260, stats_streetName = ''MAIN ST''\<rparr>)],
      summary = \<lparr>totalParcels = 2, successfullyAssigned = 2, parseErrors = 0,
                  uniqueBlocks = 1, uniqueStreets = 1\<rparr>\<rparr>)).
        issue_type i = ''sparse_block'' \<and> issue_blockId i = ''main_1200_1299'')
   \<and> (\<exists>i\<in>set (issues (validateBlockAssignments
     \<lparr>parcels = [],
      blockStats = [(''main_1200_1299'', \<lparr>count = 2, minNumber = Fin 1201,
                       maxNumber = Fin 1260, stats_streetName = ''MAIN ST''\<rparr>)],
      summary = \<lparr>totalParcels = 2, successfullyAssigned = 2, parseErrors = 0,
                  uniqueBlocks = 1, uniqueStreets = 1\<rparr>\<rparr>)).
        issue_type i = ''small_block'' \<and> issue_blockId i = ''main_1200_1299'')"
  using validateBlockAssignments_always_valid
    [of "\<lparr>parcels = [],
      blockStats = [(''main_1200_1299'', \<lparr>count = 2, minNumber = Fin 1201,
                       maxNumber = Fin 1260, stats_streetName = ''MAIN ST''\<rparr>)],
      summary = \<lparr>totalParcels = 2, successfullyAssigned = 2, parseErrors = 0,
                  uniqueBlocks = 1, uniqueStreets = 1\<rparr>\<rparr>" "[]"
        "\<lparr>opt_blockSize = None, opt_useNaturalBoundaries = None, opt_gapThreshold = None\<rparr>"]
  by simp

section \<open>Properties of the geometric segmentation\<close>





section \<open>Properties of the parcel assignment\<close>

lemma no_polygons:
  "buffer_needs_geojson T \<Longrightarrow> block_polygons T blocks = []"
  by (induction blocks)
     (simp_all add: block_polygons_def createBlockPolygon_def buffer_needs_geojson_def)

lemma assign_parcel_no_polygons: "fst (assign_parcel T [] st p) = fst st"
  by (simp add: assign_parcel_def parcel_target_def split: option.splits)

lemma assign_loop_no_polygons: "fst (foldl (assign_parcel T []) st ps) = fst st"
  by (induction ps arbitrary: st) (simp_all add: assign_parcel_no_polygons)

lemma map_of_map_set: "map_of (map_set m k v) = (map_of m)(k \<mapsto> v)"
  by (induction m) (auto simp: fun_eq_iff)

lemma map_of_init:
  "map_of (foldl (\<lambda>m b. map_set m (blockId b) []) m0 blocks) k
     = (if k \<in> blockId ` set blocks then Some [] else map_of m0 k)"
  by (induction blocks arbitrary: m0) (auto simp: map_of_map_set)

text \<open>
  C7 (the code departs from the claim). \<^verbatim>\<open>createBlockPolygon\<close> hands the block object,
  which has no GeoJSON type, to \<^verbatim>\<open>turf.buffer\<close>. With a library that throws on such an
  object, every polygon is \<^verbatim>\<open>null\<close>, no block is left to test, and the Map returned is the
  initial one: every block id has the empty list, whatever the parcels are. So a parcel
  whose centroid lies in the corridor of exactly one block is not assigned to it.
\<close>

theorem assignParcelsToBlocks_assigns_nothing:
  "buffer_needs_geojson T \<longrightarrow>
     block_polygons T blocks = []
     \<and> fst (assignParcelsToBlocks T ps blocks)
         = foldl (\<lambda>m b. map_set m (blockId b) []) [] blocks
     \<and> (\<forall>k l. map_of (fst (assignParcelsToBlocks T ps blocks)) k = Some l \<longrightarrow> l = [])"
proof (intro impI conjI allI)
  assume h: "buffer_needs_geojson T"
  show np: "block_polygons T blocks = []"
    using h by (rule no_polygons)
  show eq: "fst (assignParcelsToBlocks T ps blocks)
         = foldl (\<lambda>m b. map_set m (blockId b) []) [] blocks"
    by (simp add: assignParcelsToBlocks_def Let_def np assign_loop_no_polygons)
  fix k l
  assume "map_of (fst (assignParcelsToBlocks T ps blocks)) k = Some l"
  then show "l = []"
    unfolding eq by (simp add: map_of_init split: if_splits)
qed

text \<open>
  In the example the parcel at \<open>(2, 0)\<close> lies in the corridor of the second block only (the
  corridor the processing script computes, from \<^verbatim>\<open>turf.feature(block.geometry)\<close>), and no
  block receives it.
\<close>

theorem assignParcelsToBlocks_assigns_nothing_witness:
  "fst (assignParcelsToBlocks example_turf [(1, 0), (2, 0), (5, 5)] example_blocks)
     = [(''main_st_start_1st_ave'', []), (''main_st_1st_ave_end'', [])]
   \<and> map (\<lambda>b. case buffer example_turf (GeoFeature (seg_geometry b)) 50 of
                  None \<Rightarrow> None
                | Some poly \<Rightarrow> booleanPointInPolygon example_turf (2, 0) poly) example_blocks
     = [Some False, Some True]"
proof -
  have h: "buffer_needs_geojson example_turf"
    by (simp add: buffer_needs_geojson_def example_turf_def)
  have i: "foldl (\<lambda>m b. map_set m (blockId b) []) [] example_blocks
           = [(''main_st_start_1st_ave'', []), (''main_st_1st_ave_end'', [] :: position list)]"
    by (simp add: example_blocks_def)
  have c: "map (\<lambda>b. case buffer example_turf (GeoFeature (seg_geometry b)) 50 of
                  None \<Rightarrow> None
                | Some poly \<Rightarrow> booleanPointInPolygon example_turf (2, 0) poly) example_blocks
     = [Some False, Some True]"
    by (simp add: example_blocks_def example_turf_def)
  from assignParcelsToBlocks_assigns_nothing
         [of example_turf example_blocks "[(1, 0), (2, 0), (5, 5)]", THEN mp, OF h,
          THEN conjunct2, THEN conjunct1]
  have r: "fst (assignParcelsToBlocks example_turf [(1, 0), (2, 0), (5, 5)] example_blocks)
     = [(''main_st_start_1st_ave'', []), (''main_st_1st_ave_end'', [])]"
    unfolding i .
  from r c show ?thesis by (rule conjI)
qed

end
